theory Spec2Isabelle
  imports Main "HOL-Library.Word"
begin

section \<open>Data model of the enquiry notification service\<close>

text \<open>
  The declarations of \<^verbatim>\<open>app/services/enquiry-email.server.ts\<close> (Mailgun version):
  the three string-literal unions are datatypes, the attempt and the outcome are records.
  JavaScript strings are modelled as \<^typ>\<open>string\<close>; \<^verbatim>\<open>string | null\<close> is
  \<^typ>\<open>string option\<close>.
\<close>

datatype EnquiryEmailRecipientType = STAFF | CUSTOMER | OTHER

datatype EnquiryEmailStatus = SUCCESS | FAILURE

datatype EnquiryNotificationState = PENDING | SENT | PARTIAL | FAILED

text \<open>
  Values of type \<^verbatim>\<open>unknown\<close>: what the provider resolves with or throws. An
  \<^verbatim>\<open>Error\<close> instance carries its \<^verbatim>\<open>message\<close> (a string by the declaration of
  \<^verbatim>\<open>Error\<close>) and its other properties; a plain object is its list of properties.
  Numbers occur only as property values that are passed on unread. \<^verbatim>\<open>JOther\<close> is
  any other value that is neither an object nor a string: a function, a symbol, a bigint.
\<close>

datatype js_value =
    JUndefined
  | JNull
  | JBool bool
  | JNum int
  | JStr string
  | JObject "(string \<times> js_value) list"
  | JError string "(string \<times> js_value) list"
  | JOther

text \<open>
  \<^verbatim>\<open>providerId\<close> is declared \<^verbatim>\<open>string | null\<close>, but it is filled by the unchecked
  cast \<^verbatim>\<open>response.id as string\<close>, so the field holds whatever value the response has
  under \<^verbatim>\<open>id\<close>; \<^verbatim>\<open>null\<close> is \<^term>\<open>JNull\<close>.
\<close>

record EnquiryEmailSendAttempt =
  recipient :: string
  recipientType :: EnquiryEmailRecipientType
  status :: EnquiryEmailStatus
  subject :: string
  errorMessage :: "string option"
  providerId :: js_value
  metadata :: "(string \<times> js_value) list option"

text \<open>The return type of \<^verbatim>\<open>summarizeAttempts\<close>, extended by the outcome with the attempts.\<close>

record AttemptSummary =
  notificationState :: EnquiryNotificationState
  lastError :: "string option"

record EnquiryEmailSendOutcome = AttemptSummary +
  attempts :: "EnquiryEmailSendAttempt list"

section \<open>The outcome aggregator\<close>

text \<open>\<^verbatim>\<open>xs.at(-1)\<close>: the last element, \<^verbatim>\<open>undefined\<close> on the empty array.\<close>

definition at_minus_1 :: "'a list \<Rightarrow> 'a option" where
  "at_minus_1 xs = (if xs = [] then None else Some (last xs))"

definition NO_RECIPIENTS :: string where
  "NO_RECIPIENTS = ''No email recipients configured for enquiry notifications''"

definition summarizeAttempts :: "EnquiryEmailSendAttempt list \<Rightarrow> AttemptSummary" where
  "summarizeAttempts atts =
    (if length atts = 0 then
       \<lparr>notificationState = FAILED, lastError = Some NO_RECIPIENTS\<rparr>
     else
       let failures = filter (\<lambda>entry. status entry = FAILURE) atts;
           successes = filter (\<lambda>entry. status entry = SUCCESS) atts;
           lastFailure = (case at_minus_1 failures of
                            None \<Rightarrow> None
                          | Some entry \<Rightarrow> errorMessage entry)
       in if length failures = 0 then
            \<lparr>notificationState = SENT, lastError = None\<rparr>
          else if length successes > 0 then
            \<lparr>notificationState = PARTIAL, lastError = lastFailure\<rparr>
          else
            \<lparr>notificationState = FAILED, lastError = lastFailure\<rparr>)"

subsection \<open>The four rules of the specification\<close>

text \<open>
  The reference result, written from the rules of the specification and not from the code:
  the last FAILURE in list order is found by a scan that keeps the latest one seen, and the
  rules are tried in the order in which they are listed.
\<close>

fun last_failure_from :: "EnquiryEmailSendAttempt option \<Rightarrow> EnquiryEmailSendAttempt list
    \<Rightarrow> EnquiryEmailSendAttempt option" where
  "last_failure_from seen [] = seen"
| "last_failure_from seen (a # as) =
     last_failure_from (if status a = FAILURE then Some a else seen) as"

definition last_failure_message :: "EnquiryEmailSendAttempt list \<Rightarrow> string option" where
  "last_failure_message atts =
     (case last_failure_from None atts of None \<Rightarrow> None | Some f \<Rightarrow> errorMessage f)"

definition summarize_reference :: "EnquiryEmailSendAttempt list \<Rightarrow> AttemptSummary" where
  "summarize_reference atts =
    (if atts = [] then
       \<lparr>notificationState = FAILED,
        lastError = Some ''No email recipients configured for enquiry notifications''\<rparr>
     else if \<not> list_ex (\<lambda>a. status a = FAILURE) atts then
       \<lparr>notificationState = SENT, lastError = None\<rparr>
     else if list_ex (\<lambda>a. status a = FAILURE) atts \<and> list_ex (\<lambda>a. status a = SUCCESS) atts then
       \<lparr>notificationState = PARTIAL, lastError = last_failure_message atts\<rparr>
     else
       \<lparr>notificationState = FAILED, lastError = last_failure_message atts\<rparr>)"

section \<open>JavaScript helpers\<close>

text \<open>
  Truthiness of a \<^verbatim>\<open>string | undefined | null\<close> value: \<^verbatim>\<open>undefined\<close>, \<^verbatim>\<open>null\<close> and
  the empty string are falsy.
\<close>

definition truthy :: "string option \<Rightarrow> bool" where
  "truthy v = (case v of None \<Rightarrow> False | Some s \<Rightarrow> s \<noteq> [])"

text \<open>
  The white space and line terminators that \<^verbatim>\<open>String.prototype.trim\<close> removes, among
  the code units below 256 that a \<^typ>\<open>char\<close> holds: TAB, LF, VT, FF, CR, SP, NBSP.
\<close>

definition is_js_whitespace :: "char \<Rightarrow> bool" where
  "is_js_whitespace c = (of_char c \<in> set [9, 10, 11, 12, 13, 32, 160 :: nat])"

definition js_trimStart :: "string \<Rightarrow> string" where
  "js_trimStart s = dropWhile is_js_whitespace s"

definition js_trim :: "string \<Rightarrow> string" where
  "js_trim s = rev (dropWhile is_js_whitespace (rev (dropWhile is_js_whitespace s)))"

text \<open>
  \<^verbatim>\<open>s.split(sep)\<close> for a one-character separator: the pieces between the separators,
  empty pieces included; the empty string gives one empty piece.
\<close>

fun js_split :: "char \<Rightarrow> string \<Rightarrow> string list" where
  "js_split sep [] = [[]]"
| "js_split sep (c # cs) =
     (if c = sep then [] # js_split sep cs
      else (case js_split sep cs of
              [] \<Rightarrow> [[c]]
            | p # ps \<Rightarrow> (c # p) # ps))"

text \<open>\<^verbatim>\<open>pieces.join(sep)\<close>, used to state that \<^const>\<open>js_split\<close> loses nothing.\<close>

fun js_join :: "char \<Rightarrow> string list \<Rightarrow> string" where
  "js_join sep [] = []"
| "js_join sep [p] = p"
| "js_join sep (p # q # ps) = p @ sep # js_join sep (q # ps)"

text \<open>\<^verbatim>\<open>v && typeof v === "object"\<close>: a non-null object.\<close>

fun is_object :: "js_value \<Rightarrow> bool" where
  "is_object (JObject fs) = True"
| "is_object (JError m fs) = True"
| "is_object v = False"

text \<open>
  Property read \<^verbatim>\<open>v.k\<close>, for the keys the service reads (none of them is a property
  of \<^verbatim>\<open>Object.prototype\<close>). An \<^verbatim>\<open>Error\<close> instance has its message, and the name
  \<^verbatim>\<open>"Error"\<close> from its prototype unless a property overrides it. Reading a property of a
  primitive gives \<^verbatim>\<open>undefined\<close>; the service reads only after \<^const>\<open>is_object\<close>.
\<close>

fun js_get :: "js_value \<Rightarrow> string \<Rightarrow> js_value" where
  "js_get (JObject fs) k = (case map_of fs k of None \<Rightarrow> JUndefined | Some v \<Rightarrow> v)"
| "js_get (JError m fs) k =
     (if k = ''message'' then JStr m
      else case map_of fs k of
             Some v \<Rightarrow> v
           | None \<Rightarrow> if k = ''name'' then JStr ''Error'' else JUndefined)"
| "js_get v k = JUndefined"

text \<open>\<^verbatim>\<open>k in v\<close> for an object \<^verbatim>\<open>v\<close>, under the same reading of properties.\<close>

fun js_in :: "string \<Rightarrow> js_value \<Rightarrow> bool" where
  "js_in k (JObject fs) = (map_of fs k \<noteq> None)"
| "js_in k (JError m fs) = (k = ''message'' \<or> k = ''name'' \<or> map_of fs k \<noteq> None)"
| "js_in k v = False"

text \<open>\<^verbatim>\<open>a ?? b\<close>.\<close>

definition nullish :: "js_value \<Rightarrow> js_value \<Rightarrow> js_value" where
  "nullish a b = (if a = JUndefined \<or> a = JNull then b else a)"

section \<open>Configuration and the recipient resolver\<close>

text \<open>\<^verbatim>\<open>process.env\<close>: a variable is a string or is undefined.\<close>

type_synonym process_env = "string \<rightharpoonup> string"

record MailgunClient =
  username :: string
  key :: string
  url :: "string option"

record Mailer =
  client :: MailgunClient
  domain :: string
  fromEmail :: string

definition getMailer :: "process_env \<Rightarrow> Mailer option" where
  "getMailer env =
    (let apiKey = env ''MAILGUN_API_KEY'';
         domain = env ''MAILGUN_DOMAIN'';
         fromEmail = env ''MAILGUN_FROM_EMAIL''
     in if \<not> truthy apiKey \<or> \<not> truthy domain \<or> \<not> truthy fromEmail then None
        else (case (apiKey, domain, fromEmail) of
                (Some k, Some d, Some f) \<Rightarrow>
                  Some \<lparr>client = \<lparr>username = ''api'', key = k,
                                   url = env ''MAILGUN_API_BASE_URL''\<rparr>,
                        domain = d, fromEmail = f\<rparr>
              | _ \<Rightarrow> None))"

text \<open>
  The payload: the subject reads \<^verbatim>\<open>name\<close>, the resolver reads \<^verbatim>\<open>email\<close>; the other
  fields are read by the body builders only and stay in the extension of the record.
\<close>

record EnquiryEmailPayload =
  name :: string
  email :: string

text \<open>
  The text and HTML templates are consumed as functions of the payload and of the
  confirmation message; no property below depends on what they render.
\<close>

record 'p BodyBuilders =
  buildTextEmailBody :: "'p \<Rightarrow> string \<Rightarrow> string"
  buildHtmlEmailBody :: "'p \<Rightarrow> string \<Rightarrow> string"

definition buildSubject :: "'a EnquiryEmailPayload_scheme \<Rightarrow> string" where
  "buildSubject payload = ''[Free Visual] '' @ name payload"

definition getStaffRecipients :: "process_env \<Rightarrow> string list" where
  "getStaffRecipients env =
    (case env ''ENQUIRY_STAFF_EMAIL'' of
       None \<Rightarrow> []
     | Some s \<Rightarrow>
         if s = [] then []
         else filter (\<lambda>entry. entry \<noteq> []) (map js_trim (js_split CHR '','' s)))"

text \<open>\<^verbatim>\<open>enquiry.email?.trim() || null\<close>; \<^verbatim>\<open>email\<close> is declared a string.\<close>

definition customerRecipient :: "'a EnquiryEmailPayload_scheme \<Rightarrow> string option" where
  "customerRecipient enquiry =
    (let t = js_trim (email enquiry) in if t = [] then None else Some t)"

definition staffMessage :: string where
  "staffMessage = ''A new FREE visual enquiry has been submitted. Please review the details below and follow up with the customer.''"

definition customerMessage :: string where
  "customerMessage = ''This enquiry has been sent to our sales team. We will get back to you with a quotation asap.''"

text \<open>An entry of \<^verbatim>\<open>intendedRecipients\<close> (fields \<^verbatim>\<open>email\<close>, \<^verbatim>\<open>recipientType\<close>,
  \<^verbatim>\<open>textBody\<close>, \<^verbatim>\<open>htmlBody\<close>).\<close>

record IntendedRecipient =
  rcpt_email :: string
  rcpt_recipientType :: EnquiryEmailRecipientType
  textBody :: string
  htmlBody :: string

definition intendedRecipients ::
  "'a EnquiryEmailPayload_scheme BodyBuilders \<Rightarrow> process_env \<Rightarrow>
   'a EnquiryEmailPayload_scheme \<Rightarrow> IntendedRecipient list" where
  "intendedRecipients bb env enquiry =
    (let staffRecipients = getStaffRecipients env;
         customer = customerRecipient enquiry;
         staffBodies =
           (if length staffRecipients > 0
            then Some (buildTextEmailBody bb enquiry staffMessage,
                       buildHtmlEmailBody bb enquiry staffMessage)
            else None);
         customerBodies =
           (if truthy customer
            then Some (buildTextEmailBody bb enquiry customerMessage,
                       buildHtmlEmailBody bb enquiry customerMessage)
            else None)
     in (case staffBodies of
           None \<Rightarrow> []
         | Some (text, html) \<Rightarrow>
             map (\<lambda>e. \<lparr>rcpt_email = e, rcpt_recipientType = STAFF,
                        textBody = text, htmlBody = html\<rparr>) staffRecipients)
        @ (if truthy customer then
             (case (customer, customerBodies) of
                (Some c, Some (text, html)) \<Rightarrow>
                  [\<lparr>rcpt_email = c, rcpt_recipientType = CUSTOMER,
                    textBody = text, htmlBody = html\<rparr>]
              | _ \<Rightarrow> [])
           else []))"

subsection \<open>The resolver of the specification\<close>

text \<open>
  Written from the rules of the specification: the staff string split on a comma, every
  entry trimmed, the empty ones dropped, each a STAFF pair in the order listed; then one
  CUSTOMER pair with the trimmed customer address if it is not empty. Nothing is
  deduplicated.
\<close>

definition resolve_reference :: "string \<Rightarrow> string \<Rightarrow> (string \<times> EnquiryEmailRecipientType) list" where
  "resolve_reference staff customer =
     map (\<lambda>a. (a, STAFF)) (filter (\<lambda>a. a \<noteq> []) (map js_trim (js_split CHR '','' staff)))
     @ (if js_trim customer \<noteq> [] then [(js_trim customer, CUSTOMER)] else [])"

section \<open>The transport and the dispatch orchestrator\<close>

record AttachmentPayload =
  filename :: string
  mimeType :: string
  size_bytes :: nat
  data :: "8 word list"

text \<open>An element of \<^verbatim>\<open>attachments\<close> (fields \<^verbatim>\<open>data\<close>, \<^verbatim>\<open>filename\<close>, \<^verbatim>\<open>contentType\<close>).\<close>

record MailgunAttachment =
  att_data :: "8 word list"
  att_filename :: string
  att_contentType :: string

text \<open>The second argument of \<^verbatim>\<open>messages.create\<close> (fields \<^verbatim>\<open>to\<close>, \<^verbatim>\<open>from\<close>,
  \<^verbatim>\<open>subject\<close>, \<^verbatim>\<open>text\<close>, \<^verbatim>\<open>html\<close> and the optional \<^verbatim>\<open>attachment\<close>).\<close>

record MailgunMessageData =
  msg_to :: string
  msg_from :: string
  msg_subject :: string
  msg_text :: string
  msg_html :: string
  msg_attachment :: "MailgunAttachment list option"

text \<open>
  An awaited provider call either resolves with a response or throws. The provider is a
  function of the client, the domain, the message and the state of the outside world,
  which it may change: two calls with the same message need not give the same result.
\<close>

datatype send_result = Resolved js_value | Rejected js_value

type_synonym 'w messages_create =
  "MailgunClient \<Rightarrow> string \<Rightarrow> MailgunMessageData \<Rightarrow> 'w \<Rightarrow> send_result \<times> 'w"

text \<open>
  The state that \<^verbatim>\<open>sendToRecipient\<close> changes: the array \<^verbatim>\<open>attempts\<close> of the enclosing
  call, the outside world, and the trace of the provider calls made so far with their
  results.
\<close>

record 'w DispatchState =
  st_attempts :: "EnquiryEmailSendAttempt list"
  st_calls :: "(MailgunMessageData \<times> send_result) list"
  st_world :: 'w

text \<open>
  The variable \<^verbatim>\<open>attachments\<close>. The test \<^verbatim>\<open>attachment && attachment.data\<close> holds for
  every attachment that is not null, since a \<^verbatim>\<open>Buffer\<close> is an object; the file name is
  declared a string, so \<^verbatim>\<open>?? "attachment"\<close> never applies.
\<close>

definition attachmentsOf :: "AttachmentPayload option \<Rightarrow> MailgunAttachment list option" where
  "attachmentsOf attachment =
    (case attachment of
       None \<Rightarrow> None
     | Some a \<Rightarrow> Some [\<lparr>att_data = data a, att_filename = filename a,
                         att_contentType = mimeType a\<rparr>])"

definition buildErrorMetadata :: "js_value \<Rightarrow> (string \<times> js_value) list option" where
  "buildErrorMetadata error =
    (if is_object error then
       Some [(''name'', nullish (js_get error ''name'') (JStr ''Error'')),
             (''status'', nullish (js_get error ''status'')
                            (nullish (js_get error ''statusCode'') JNull)),
             (''code'', nullish (js_get error ''code'') JNull),
             (''details'', nullish (js_get error ''details'') JNull)]
     else None)"

definition buildSuccessMetadata :: "js_value \<Rightarrow> (string \<times> js_value) list option" where
  "buildSuccessMetadata result =
    (if is_object result then
       Some [(''message'', nullish (js_get result ''message'') JNull)]
     else None)"

fun normalizeErrorMessage :: "js_value \<Rightarrow> string" where
  "normalizeErrorMessage (JError m fs) = m"
| "normalizeErrorMessage (JStr s) = s"
| "normalizeErrorMessage v = ''Unknown error sending email''"

definition misconfigurationError :: "Mailer option \<Rightarrow> string option \<Rightarrow> string option" where
  "misconfigurationError mailer fromAddress =
    (if mailer = None then Some ''Mailgun client is not configured.''
     else if \<not> truthy fromAddress then Some ''Missing Mailgun sender address.''
     else None)"

text \<open>
  \<^verbatim>\<open>sendToRecipient\<close>, with the variables of the enclosing call that it reads as
  arguments. The \<^verbatim>\<open>try\<close> block is the case on the result of the provider call. Every
  path pushes exactly one attempt; the last case of the definition cannot occur, since
  behind the guard the mailer and the sender address are present.
\<close>

definition sendToRecipient ::
  "'w messages_create \<Rightarrow> string option \<Rightarrow> Mailer option \<Rightarrow> string option \<Rightarrow> string \<Rightarrow>
   MailgunAttachment list option \<Rightarrow> IntendedRecipient \<Rightarrow> 'w DispatchState \<Rightarrow> 'w DispatchState" where
  "sendToRecipient create misconfig mailer fromAddress subj attachments rcpt st =
    (if truthy misconfig \<or> mailer = None \<or> \<not> truthy fromAddress then
       st\<lparr>st_attempts := st_attempts st @
            [\<lparr>recipient = rcpt_email rcpt,
              recipientType = rcpt_recipientType rcpt,
              status = FAILURE,
              subject = subj,
              errorMessage = Some (case misconfig of
                                     Some m \<Rightarrow> m
                                   | None \<Rightarrow> ''Mailer configuration is incomplete.''),
              providerId = JNull,
              metadata = Some [(''reason'', JStr ''missing_mailer_configuration'')]\<rparr>]\<rparr>
     else
       (case (mailer, fromAddress) of
          (Some m, Some sender) \<Rightarrow>
            (let msg = \<lparr>msg_to = rcpt_email rcpt, msg_from = sender, msg_subject = subj,
                        msg_text = textBody rcpt, msg_html = htmlBody rcpt,
                        msg_attachment = attachments\<rparr>
             in case create (client m) (domain m) msg (st_world st) of
                  (Resolved response, w) \<Rightarrow>
                    (let pid = (if is_object response \<and> js_in ''id'' response
                                then js_get response ''id'' else JNull)
                     in \<lparr>st_attempts = st_attempts st @
                            [\<lparr>recipient = rcpt_email rcpt,
                              recipientType = rcpt_recipientType rcpt,
                              status = SUCCESS,
                              subject = subj,
                              errorMessage = None,
                              providerId = pid,
                              metadata = buildSuccessMetadata response\<rparr>],
                          st_calls = st_calls st @ [(msg, Resolved response)],
                          st_world = w\<rparr>)
                | (Rejected error, w) \<Rightarrow>
                    \<lparr>st_attempts = st_attempts st @
                       [\<lparr>recipient = rcpt_email rcpt,
                         recipientType = rcpt_recipientType rcpt,
                         status = FAILURE,
                         subject = subj,
                         errorMessage = Some (normalizeErrorMessage error),
                         providerId = JNull,
                         metadata = buildErrorMetadata error\<rparr>],
                     st_calls = st_calls st @ [(msg, Rejected error)],
                     st_world = w\<rparr>)
        | _ \<Rightarrow> st))"

text \<open>
  \<^verbatim>\<open>sendEnquiryEmails\<close> (Mailgun version). It returns the outcome, and for the
  statements about the transport also the trace of the provider calls and the world they
  leave.
\<close>

definition sendEnquiryEmails ::
  "'a EnquiryEmailPayload_scheme BodyBuilders \<Rightarrow> process_env \<Rightarrow> 'w messages_create \<Rightarrow>
   'a EnquiryEmailPayload_scheme \<Rightarrow> AttachmentPayload option \<Rightarrow> 'w \<Rightarrow>
   EnquiryEmailSendOutcome \<times> (MailgunMessageData \<times> send_result) list \<times> 'w" where
  "sendEnquiryEmails bb env create enquiry attachment w0 =
    (let mailer = getMailer env;
         fromAddress = map_option fromEmail mailer;
         subj = buildSubject enquiry;
         attachments = attachmentsOf attachment;
         rcpts = intendedRecipients bb env enquiry
     in if length rcpts = 0 then
          (let atts = [\<lparr>recipient = ''n/a'',
                         recipientType = OTHER,
                         status = FAILURE,
                         subject = subj,
                         errorMessage = Some NO_RECIPIENTS,
                         providerId = JNull,
                         metadata = None\<rparr>];
               summary = summarizeAttempts atts
           in (\<lparr>notificationState = notificationState summary,
                lastError = lastError summary,
                attempts = atts\<rparr>, [], w0))
        else
          (let misconfig = misconfigurationError mailer fromAddress;
               st = fold (sendToRecipient create misconfig mailer fromAddress subj attachments)
                      rcpts
                      \<lparr>st_attempts = [], st_calls = [], st_world = w0\<rparr>;
               summary = summarizeAttempts (st_attempts st)
           in (\<lparr>notificationState = notificationState summary,
                lastError = lastError summary,
                attempts = st_attempts st\<rparr>, st_calls st, st_world st)))"

subsection \<open>What one send records\<close>

text \<open>
  Names for the message that \<^const>\<open>sendToRecipient\<close> passes to the provider and for the
  attempt that it pushes for a provider result and in the misconfiguration branch. They
  abbreviate the statements of the lemmas on the loop; the definitions above do not use
  them.
\<close>

definition message_for ::
  "string \<Rightarrow> string \<Rightarrow> MailgunAttachment list option \<Rightarrow> IntendedRecipient \<Rightarrow> MailgunMessageData" where
  "message_for sender subj attachments rcpt =
     \<lparr>msg_to = rcpt_email rcpt, msg_from = sender, msg_subject = subj,
      msg_text = textBody rcpt, msg_html = htmlBody rcpt, msg_attachment = attachments\<rparr>"

definition attempt_for :: "string \<Rightarrow> IntendedRecipient \<Rightarrow> send_result \<Rightarrow> EnquiryEmailSendAttempt" where
  "attempt_for subj rcpt res =
     (case res of
        Resolved response \<Rightarrow>
          \<lparr>recipient = rcpt_email rcpt, recipientType = rcpt_recipientType rcpt,
           status = SUCCESS, subject = subj, errorMessage = None,
           providerId = (if is_object response \<and> js_in ''id'' response
                         then js_get response ''id'' else JNull),
           metadata = buildSuccessMetadata response\<rparr>
      | Rejected error \<Rightarrow>
          \<lparr>recipient = rcpt_email rcpt, recipientType = rcpt_recipientType rcpt,
           status = FAILURE, subject = subj,
           errorMessage = Some (normalizeErrorMessage error),
           providerId = JNull, metadata = buildErrorMetadata error\<rparr>)"

definition misconfiguration_attempt ::
  "string \<Rightarrow> string \<Rightarrow> IntendedRecipient \<Rightarrow> EnquiryEmailSendAttempt" where
  "misconfiguration_attempt subj msg rcpt =
     \<lparr>recipient = rcpt_email rcpt, recipientType = rcpt_recipientType rcpt,
      status = FAILURE, subject = subj, errorMessage = Some msg, providerId = JNull,
      metadata = Some [(''reason'', JStr ''missing_mailer_configuration'')]\<rparr>"

section \<open>The aggregator on a store of arrays\<close>

text \<open>
  For the statement that \<^verbatim>\<open>summarizeAttempts\<close> leaves its argument as it was, arrays
  are kept in a store and passed by reference. \<^verbatim>\<open>Array.prototype.filter\<close> reads the
  receiver and allocates the array it returns; \<^verbatim>\<open>at\<close> and \<^verbatim>\<open>length\<close> only read.
\<close>

record ArrayStore =
  arrays :: "nat \<Rightarrow> EnquiryEmailSendAttempt list"
  next_ref :: nat

definition array_filter ::
  "(EnquiryEmailSendAttempt \<Rightarrow> bool) \<Rightarrow> nat \<Rightarrow> ArrayStore \<Rightarrow> nat \<times> ArrayStore" where
  "array_filter p r h =
     (next_ref h,
      \<lparr>arrays = (arrays h)(next_ref h := filter p (arrays h r)),
       next_ref = Suc (next_ref h)\<rparr>)"

definition summarizeAttempts_store :: "nat \<Rightarrow> ArrayStore \<Rightarrow> AttemptSummary \<times> ArrayStore" where
  "summarizeAttempts_store r h =
    (if length (arrays h r) = 0 then
       (\<lparr>notificationState = FAILED, lastError = Some NO_RECIPIENTS\<rparr>, h)
     else
       (case array_filter (\<lambda>entry. status entry = FAILURE) r h of
          (failures, h1) \<Rightarrow>
            (case array_filter (\<lambda>entry. status entry = SUCCESS) r h1 of
               (successes, h2) \<Rightarrow>
                 (let lastFailure = (case at_minus_1 (arrays h2 failures) of
                                       None \<Rightarrow> None
                                     | Some entry \<Rightarrow> errorMessage entry)
                  in if length (arrays h2 failures) = 0 then
                       (\<lparr>notificationState = SENT, lastError = None\<rparr>, h2)
                     else if length (arrays h2 successes) > 0 then
                       (\<lparr>notificationState = PARTIAL, lastError = lastFailure\<rparr>, h2)
                     else
                       (\<lparr>notificationState = FAILED, lastError = lastFailure\<rparr>, h2)))))"

section \<open>The earlier nodemailer version of the service\<close>

text \<open>
  The first version of \<^verbatim>\<open>enquiry-email.server.ts\<close> sends through an SMTP transporter
  and returns nothing. \<^verbatim>\<open>getStaffRecipients\<close>, \<^verbatim>\<open>buildSubject\<close> and the customer
  recipient are the same code as in the Mailgun version.
\<close>

definition is_digit :: "char \<Rightarrow> bool" where
  "is_digit c = (48 \<le> (of_char c :: nat) \<and> (of_char c :: nat) \<le> 57)"

text \<open>
  The numbers that \<^verbatim>\<open>Number.parseInt\<close> returns: \<^verbatim>\<open>NaN\<close>, an integer that a double
  holds, or an infinity. The sign of zero is not kept: both zeros are falsy, and the
  service only tests the number and passes it on.
\<close>

datatype js_number = NaN | Finite int | Infinity | NegInfinity

text \<open>\<^verbatim>\<open>!n\<close> is true for \<^verbatim>\<open>NaN\<close> and for zero.\<close>

definition number_truthy :: "js_number \<Rightarrow> bool" where
  "number_truthy n = (n \<noteq> NaN \<and> n \<noteq> Finite 0)"

text \<open>The number of binary digits of a natural number.\<close>

fun bit_length :: "nat \<Rightarrow> nat" where
  "bit_length n = (if n = 0 then 0 else Suc (bit_length (n div 2)))"

declare bit_length.simps [simp del]

text \<open>
  The double nearest to a natural number, ties to the even significand of 53 bits;
  \<^term>\<open>None\<close> when the rounded value reaches \<open>2 ^ 1024\<close>, which no finite double holds.
  Numbers of at most 53 binary digits are exact.
\<close>

definition to_double :: "nat \<Rightarrow> nat option" where
  "to_double a =
    (let k = bit_length a
     in if k \<le> 53 then Some a
        else
          (let e = k - 53;
               q = a div 2 ^ e;
               r = a mod 2 ^ e;
               half = 2 ^ (e - 1);
               q' = (if r > half \<or> (r = half \<and> odd q) then q + 1 else q);
               v = q' * 2 ^ e
           in if v \<ge> 2 ^ 1024 then None else Some v))"

text \<open>
  \<^verbatim>\<open>Number.parseInt(s, 10)\<close>: leading white space is skipped, a sign is read, then the
  longest run of decimal digits; \<^verbatim>\<open>NaN\<close> when there is no digit. The integer that the
  digits denote is rounded to a double.
\<close>

definition parseInt10 :: "string \<Rightarrow> js_number" where
  "parseInt10 s =
    (let t = js_trimStart s;
         neg = (t \<noteq> [] \<and> hd t = CHR ''-'');
         rest = (if t \<noteq> [] \<and> (hd t = CHR ''-'' \<or> hd t = CHR ''+'') then tl t else t);
         digits = takeWhile is_digit rest;
         n = foldl (\<lambda>acc d. 10 * acc + (of_char d - 48)) (0::nat) digits
     in if digits = [] then NaN
        else (case to_double n of
                None \<Rightarrow> if neg then NegInfinity else Infinity
              | Some v \<Rightarrow> if neg then Finite (- int v) else Finite (int v)))"

text \<open>The options of \<^verbatim>\<open>nodemailer.createTransport\<close>; the port is a truthy number.\<close>

record SmtpTransportOptions =
  host :: string
  port :: js_number
  secure :: bool
  auth :: "(string \<times> string) option"

text \<open>
  \<^verbatim>\<open>getMailer\<close> (nodemailer version). The port is \<^verbatim>\<open>undefined\<close> when the variable is
  unset or empty, else the parsed number; the transporter is null when the host or the
  port is falsy.
\<close>

definition getMailer_nodemailer :: "process_env \<Rightarrow> SmtpTransportOptions option" where
  "getMailer_nodemailer env =
    (let h = env ''ENQUIRY_SMTP_HOST'';
         p = (case env ''ENQUIRY_SMTP_PORT'' of
                None \<Rightarrow> None
              | Some s \<Rightarrow> if s = [] then None else Some (parseInt10 s))
     in case (h, p) of
          (Some hostname, Some portnum) \<Rightarrow>
            if hostname = [] \<or> \<not> number_truthy portnum then None
            else Some \<lparr>host = hostname, port = portnum,
                       secure = (env ''ENQUIRY_SMTP_SECURE'' = Some ''true''),
                       auth = (case (env ''ENQUIRY_SMTP_USER'', env ''ENQUIRY_SMTP_PASS'') of
                                 (Some u, Some pw) \<Rightarrow>
                                   if u \<noteq> [] \<and> pw \<noteq> [] then Some (u, pw) else None
                               | _ \<Rightarrow> None)\<rparr>
        | _ \<Rightarrow> None)"

text \<open>The staff message goes to the whole array of staff addresses, the customer message
  to one address.\<close>

datatype mail_to = ToList "string list" | ToAddress string

record NodemailerAttachment =
  na_filename :: string
  na_content :: "8 word list"
  na_contentType :: string

record NodemailerMessage =
  nm_to :: mail_to
  nm_from :: string
  nm_subject :: string
  nm_text :: string
  nm_html :: string
  nm_attachments :: "NodemailerAttachment list option"

text \<open>
  A call of \<^verbatim>\<open>transporter.sendMail\<close> returns a promise at once. The promise settles
  later, resolved or rejected; the transport gives the result of a send and the instant at
  which it settles. In a run of the program distinct promises settle at distinct instants.
\<close>

type_synonym 'w sendMail =
  "SmtpTransportOptions \<Rightarrow> NodemailerMessage \<Rightarrow> 'w \<Rightarrow> (send_result \<times> nat) \<times> 'w"

text \<open>The calls of \<^verbatim>\<open>transporter.sendMail\<close> are all issued, in order, before any is
  awaited. The trace lists them in the order of issue, each with its result and the instant
  at which it settles.\<close>

fun issue_sends :: "'w sendMail \<Rightarrow> SmtpTransportOptions \<Rightarrow> NodemailerMessage list \<Rightarrow> 'w
    \<Rightarrow> (NodemailerMessage \<times> send_result \<times> nat) list \<times> 'w" where
  "issue_sends send t [] w = ([], w)"
| "issue_sends send t (m # ms) w =
     (case send t m w of
        ((r, i), w1) \<Rightarrow> (case issue_sends send t ms w1 of
                           (rs, w2) \<Rightarrow> ((m, r, i) # rs, w2)))"

text \<open>
  \<^verbatim>\<open>await Promise.all(sendOperations)\<close> throws when a send is rejected, and the value
  thrown is the reason of the rejection that settles first, whatever the order of issue.
  The function returns that reason with its instant. (Equal instants do not occur in a
  run; the model then keeps the send issued first.)
\<close>

fun first_settled_rejection :: "('m \<times> send_result \<times> nat) list \<Rightarrow> (js_value \<times> nat) option" where
  "first_settled_rejection [] = None"
| "first_settled_rejection ((m, Resolved v, i) # rs) = first_settled_rejection rs"
| "first_settled_rejection ((m, Rejected e, i) # rs) =
     (case first_settled_rejection rs of
        None \<Rightarrow> Some (e, i)
      | Some (e', i') \<Rightarrow> if i' < i then Some (e', i') else Some (e, i))"

text \<open>
  \<^verbatim>\<open>sendEnquiryEmails\<close> (nodemailer version): \<^term>\<open>Inl e\<close> when the call throws
  \<^verbatim>\<open>e\<close>, \<^term>\<open>Inr ()\<close> when it returns.
\<close>

definition sendEnquiryEmails_nodemailer ::
  "'a EnquiryEmailPayload_scheme BodyBuilders \<Rightarrow> process_env \<Rightarrow> 'w sendMail \<Rightarrow>
   'a EnquiryEmailPayload_scheme \<Rightarrow> AttachmentPayload option \<Rightarrow> 'w \<Rightarrow>
   (js_value + unit) \<times> (NodemailerMessage \<times> send_result \<times> nat) list \<times> 'w" where
  "sendEnquiryEmails_nodemailer bb env send enquiry attachment w0 =
    (let transporter = getMailer_nodemailer env;
         fromAddress = env ''ENQUIRY_NOTIFICATION_FROM'';
         staffRecipients = getStaffRecipients env;
         customer = customerRecipient enquiry
     in case (transporter, fromAddress) of
          (Some t, Some sender) \<Rightarrow>
            if sender = [] \<or> (length staffRecipients = 0 \<and> \<not> truthy customer) then
              (Inl (JError ''Failed to send enquiry notification email'' []), [], w0)
            else
              (let subj = buildSubject enquiry;
                   atts = (case attachment of
                             None \<Rightarrow> None
                           | Some a \<Rightarrow> Some [\<lparr>na_filename = filename a, na_content = data a,
                                               na_contentType = mimeType a\<rparr>]);
                   staffOps =
                     (if length staffRecipients > 0 then
                        [\<lparr>nm_to = ToList staffRecipients, nm_from = sender, nm_subject = subj,
                          nm_text = buildTextEmailBody bb enquiry staffMessage,
                          nm_html = buildHtmlEmailBody bb enquiry staffMessage,
                          nm_attachments = atts\<rparr>]
                      else []);
                   customerOps =
                     (case customer of
                        None \<Rightarrow> []
                      | Some c \<Rightarrow>
                          if c = [] then []
                          else [\<lparr>nm_to = ToAddress c, nm_from = sender, nm_subject = subj,
                                 nm_text = buildTextEmailBody bb enquiry customerMessage,
                                 nm_html = buildHtmlEmailBody bb enquiry customerMessage,
                                 nm_attachments = atts\<rparr>])
               in case issue_sends send t (staffOps @ customerOps) w0 of
                    (log, w) \<Rightarrow>
                      (case first_settled_rejection log of
                         Some (e, i) \<Rightarrow> (Inl e, log, w)
                       | None \<Rightarrow> (Inr (), log, w)))
        | _ \<Rightarrow> (Inl (JError ''Failed to send enquiry notification email'' []), [], w0))"

section \<open>The end-to-end scenarios of the specification\<close>

text \<open>
  Concrete inputs for the scenarios of the specification, used to evaluate the service.
  Scenario B: body builders that return the confirmation message, an enquiry whose
  customer address has blanks around it, an environment with the Mailgun variables and two
  staff addresses, and a provider that rejects the message to \<^verbatim>\<open>b@x.com\<close> and accepts the
  others, counting its calls in the world. Scenario C: no environment variable and a blank
  customer address. Scenario D: only the staff list is set. Further: a staff list with an
  empty entry and with the customer's address in it; the three attempts of the
  order-sensitivity example, alone in a store; an SMTP transport that accepts every message;
  an environment with the SMTP variables, and an SMTP transport that rejects the staff
  message late and the customer message early.
\<close>

definition plain_builders :: "EnquiryEmailPayload BodyBuilders" where
  "plain_builders = \<lparr>buildTextEmailBody = (\<lambda>p m. m), buildHtmlEmailBody = (\<lambda>p m. m)\<rparr>"

definition scenario_enquiry :: EnquiryEmailPayload where
  "scenario_enquiry = \<lparr>name = ''Ada'', email = '' c@y.com ''\<rparr>"

definition scenario_env :: process_env where
  "scenario_env = [''MAILGUN_API_KEY'' \<mapsto> ''key-1'', ''MAILGUN_DOMAIN'' \<mapsto> ''mg.x.com'',
     ''MAILGUN_FROM_EMAIL'' \<mapsto> ''noreply@x.com'',
     ''ENQUIRY_STAFF_EMAIL'' \<mapsto> ''a@x.com, b@x.com'']"

definition provider_rejects_b :: "nat messages_create" where
  "provider_rejects_b c d msg w =
     (if msg_to msg = ''b@x.com''
      then Rejected (JError ''Forbidden'' [(''status'', JNum 403)])
      else Resolved (JObject [(''id'', JStr ''<1@mg.x.com>''), (''message'', JStr ''Queued'')]),
      Suc w)"

definition scenario_C_enquiry :: EnquiryEmailPayload where
  "scenario_C_enquiry = \<lparr>name = ''Ada'', email = ''  ''\<rparr>"

definition scenario_D_env :: process_env where
  "scenario_D_env = [''ENQUIRY_STAFF_EMAIL'' \<mapsto> ''a@x.com'']"

definition scenario_dup_env :: process_env where
  "scenario_dup_env = [''ENQUIRY_STAFF_EMAIL'' \<mapsto> ''a@x.com, ,c@y.com'']"

definition scenario_attempts :: "EnquiryEmailSendAttempt list" where
  "scenario_attempts =
     [\<lparr>recipient = ''a@x.com'', recipientType = STAFF, status = FAILURE, subject = ''s'',
        errorMessage = Some ''e1'', providerId = JNull, metadata = None\<rparr>,
      \<lparr>recipient = ''b@x.com'', recipientType = STAFF, status = SUCCESS, subject = ''s'',
        errorMessage = None, providerId = JStr ''id-1'', metadata = None\<rparr>,
      \<lparr>recipient = ''c@y.com'', recipientType = CUSTOMER, status = FAILURE, subject = ''s'',
        errorMessage = Some ''e2'', providerId = JNull, metadata = None\<rparr>]"

definition scenario_store :: ArrayStore where
  "scenario_store = \<lparr>arrays = (\<lambda>q. if q = 0 then scenario_attempts else []), next_ref = 1\<rparr>"

definition smtp_accepts :: "nat sendMail" where
  "smtp_accepts t msg w =
     ((Resolved (JObject [(''messageId'', JStr ''<1@smtp>'')]), Suc w), Suc w)"

definition scenario_smtp_env :: process_env where
  "scenario_smtp_env = [''ENQUIRY_SMTP_HOST'' \<mapsto> ''smtp.x.com'', ''ENQUIRY_SMTP_PORT'' \<mapsto> ''587'',
     ''ENQUIRY_NOTIFICATION_FROM'' \<mapsto> ''noreply@x.com'',
     ''ENQUIRY_STAFF_EMAIL'' \<mapsto> ''a@x.com, b@x.com'']"

definition smtp_rejects_both :: "nat sendMail" where
  "smtp_rejects_both t msg w =
     (case nm_to msg of
        ToList addresses \<Rightarrow> ((Rejected (JError ''staff mailbox full'' []), 9), Suc w)
      | ToAddress address \<Rightarrow> ((Rejected (JError ''customer bounced'' []), 2), Suc w))"

section \<open>Properties of the string helpers\<close>

text \<open>
  The model of \<^verbatim>\<open>split\<close> loses nothing and leaves no separator in a piece; the
  model of \<^verbatim>\<open>trim\<close> removes white space at both ends and nothing else.
\<close>

lemma js_split_nonempty: "js_split sep s \<noteq> []"
  by (induction s) (auto split: list.splits)

lemma js_join_split: "js_join sep (js_split sep s) = s"
proof (induction s)
  case Nil
  show ?case by simp
next
  case (Cons c cs)
  obtain p ps where sp: "js_split sep cs = p # ps"
    using js_split_nonempty [of sep cs] by (cases "js_split sep cs") auto
  with Cons show ?case
    by (cases ps) auto
qed

lemma js_split_no_sep: "p \<in> set (js_split sep s) \<Longrightarrow> sep \<notin> set p"
  by (induction s arbitrary: p) (auto split: if_splits list.splits)

lemma js_trim_decomp:
  "\<exists>l r. s = l @ js_trim s @ r \<and> list_all is_js_whitespace l \<and> list_all is_js_whitespace r"
proof -
  let ?l = "takeWhile is_js_whitespace s"
  let ?m = "dropWhile is_js_whitespace s"
  let ?r = "rev (takeWhile is_js_whitespace (rev ?m))"
  have "?m = js_trim s @ ?r"
    unfolding js_trim_def
    by (metis rev_append rev_rev_ident takeWhile_dropWhile_id)
  then have "s = ?l @ js_trim s @ ?r"
    by (metis takeWhile_dropWhile_id)
  moreover have "list_all is_js_whitespace ?l"
    by (simp add: list_all_iff) (meson set_takeWhileD)
  moreover have "list_all is_js_whitespace ?r"
    by (simp add: list_all_iff) (meson set_takeWhileD)
  ultimately show ?thesis by blast
qed

lemma js_trim_ends:
  assumes "js_trim s \<noteq> []"
  shows "\<not> is_js_whitespace (hd (js_trim s)) \<and> \<not> is_js_whitespace (last (js_trim s))"
proof -
  let ?m = "dropWhile is_js_whitespace s"
  let ?d = "dropWhile is_js_whitespace (rev ?m)"
  from assms have d: "?d \<noteq> []" by (simp add: js_trim_def)
  then have "\<not> is_js_whitespace (hd ?d)" by (rule hd_dropWhile)
  then have l: "\<not> is_js_whitespace (last (js_trim s))"
    using d by (simp add: js_trim_def last_rev)
  have "?m = js_trim s @ rev (takeWhile is_js_whitespace (rev ?m))"
    unfolding js_trim_def by (metis rev_append rev_rev_ident takeWhile_dropWhile_id)
  with assms have "hd (js_trim s) = hd ?m" and "?m \<noteq> []"
    by (metis hd_append2, metis append_is_Nil_conv)
  then show ?thesis using l hd_dropWhile [of is_js_whitespace s] by simp
qed

section \<open>The outcome aggregator\<close>

lemma last_failure_from_filter:
  "last_failure_from seen atts =
     (if filter (\<lambda>a. status a = FAILURE) atts = [] then seen
      else Some (last (filter (\<lambda>a. status a = FAILURE) atts)))"
  by (induction atts arbitrary: seen) auto

lemma last_failure_message_filter:
  "last_failure_message atts =
     (case at_minus_1 (filter (\<lambda>a. status a = FAILURE) atts) of
        None \<Rightarrow> None | Some f \<Rightarrow> errorMessage f)"
  by (simp add: last_failure_message_def last_failure_from_filter at_minus_1_def)

lemma filter_empty_list_ex: "(filter P xs = []) = (\<not> list_ex P xs)"
  by (induction xs) auto

lemma summarize_all_failures:
  assumes "atts \<noteq> []" "list_all (\<lambda>a. status a = FAILURE) atts"
  shows "summarizeAttempts atts =
     \<lparr>notificationState = FAILED, lastError = errorMessage (last atts)\<rparr>"
proof -
  have f: "filter (\<lambda>a. status a = FAILURE) atts = atts"
    using assms(2) by (simp add: list_all_iff)
  have s: "filter (\<lambda>a. status a = SUCCESS) atts = []"
    using assms(2) by (auto simp: list_all_iff filter_empty_conv)
  show ?thesis
    using assms(1) by (simp add: summarizeAttempts_def f s at_minus_1_def)
qed

lemma summarize_SENT_iff:
  "(notificationState (summarizeAttempts atts) = SENT) =
     (atts \<noteq> [] \<and> list_all (\<lambda>a. status a = SUCCESS) atts)"
proof -
  have "(filter (\<lambda>a. status a = FAILURE) atts = []) = list_all (\<lambda>a. status a = SUCCESS) atts"
    by (auto simp: filter_empty_conv list_all_iff intro: EnquiryEmailStatus.exhaust)
  then show ?thesis
    by (simp add: summarizeAttempts_def Let_def)
qed

lemma summarize_not_SENT:
  "a \<in> set atts \<Longrightarrow> status a = FAILURE \<Longrightarrow> notificationState (summarizeAttempts atts) \<noteq> SENT"
  by (auto simp: summarize_SENT_iff list_all_iff)

lemma filter_last_failure:
  assumes "atts = pre @ f # post" "status f = FAILURE"
    "\<not> list_ex (\<lambda>a. status a = FAILURE) post"
  shows "filter (\<lambda>a. status a = FAILURE) atts = filter (\<lambda>a. status a = FAILURE) pre @ [f]"
proof -
  have "filter (\<lambda>a. status a = FAILURE) post = []"
    using assms(3) by (simp add: filter_empty_list_ex)
  with assms(1,2) show ?thesis by simp
qed

text \<open>
  C1. For every attempt list, \<^verbatim>\<open>summarizeAttempts\<close> returns the four-rule reference
  result: the empty list gives FAILED with the fixed "no recipients" message; a non-empty
  list without FAILURE gives SENT and null; a list with a FAILURE and a SUCCESS gives PARTIAL
  and the error message of the last FAILURE in list order; a non-empty list of FAILUREs
  only gives FAILED and the error message of the last FAILURE in list order. The rules are
  also stated one by one, the last FAILURE being the entry \<open>f\<close> of a decomposition
  \<open>pre @ f # post\<close> of the list with no FAILURE in \<open>post\<close>.
\<close>

theorem summarizeAttempts_four_rules:
  "summarizeAttempts atts = summarize_reference atts
   \<and> (atts = [] \<longrightarrow>
        summarizeAttempts atts =
          \<lparr>notificationState = FAILED,
           lastError = Some ''No email recipients configured for enquiry notifications''\<rparr>)
   \<and> (atts \<noteq> [] \<and> \<not> list_ex (\<lambda>a. status a = FAILURE) atts \<longrightarrow>
        summarizeAttempts atts = \<lparr>notificationState = SENT, lastError = None\<rparr>)
   \<and> (\<forall>pre f post.
        atts = pre @ f # post \<and> status f = FAILURE
        \<and> \<not> list_ex (\<lambda>a. status a = FAILURE) post \<longrightarrow>
        summarizeAttempts atts =
          \<lparr>notificationState =
             (if list_ex (\<lambda>a. status a = SUCCESS) atts then PARTIAL else FAILED),
           lastError = errorMessage f\<rparr>)"
proof -
  have len: "\<And>P. (length (filter P atts) = 0) = (\<not> list_ex P atts)"
    by (simp add: filter_empty_list_ex)
  have pos: "\<And>P. (0 < length (filter P atts)) = list_ex P atts"
    by (simp add: filter_empty_list_ex)
  have ref: "summarizeAttempts atts = summarize_reference atts"
  proof (cases "atts = []")
    case True
    then show ?thesis
      by (simp add: summarizeAttempts_def summarize_reference_def NO_RECIPIENTS_def)
  next
    case False
    then show ?thesis
      unfolding summarizeAttempts_def summarize_reference_def Let_def
      by (simp add: len pos last_failure_message_filter filter_empty_list_ex)
  qed
  have r1: "atts = [] \<longrightarrow>
        summarizeAttempts atts =
          \<lparr>notificationState = FAILED,
           lastError = Some ''No email recipients configured for enquiry notifications''\<rparr>"
    by (simp add: summarizeAttempts_def NO_RECIPIENTS_def)
  have r2: "atts \<noteq> [] \<and> \<not> list_ex (\<lambda>a. status a = FAILURE) atts \<longrightarrow>
        summarizeAttempts atts = \<lparr>notificationState = SENT, lastError = None\<rparr>"
    by (simp add: summarizeAttempts_def Let_def filter_empty_list_ex)
  have r34: "summarizeAttempts atts =
          \<lparr>notificationState =
             (if list_ex (\<lambda>a. status a = SUCCESS) atts then PARTIAL else FAILED),
           lastError = errorMessage f\<rparr>"
    if "atts = pre @ f # post" "status f = FAILURE"
       "\<not> list_ex (\<lambda>a. status a = FAILURE) post" for pre f post
  proof -
    note fl = filter_last_failure [OF that]
    have ne: "atts \<noteq> []" using that(1) by simp
    show ?thesis
      using ne unfolding summarizeAttempts_def Let_def
      by (simp add: fl at_minus_1_def filter_empty_list_ex)
  qed
  show ?thesis
    using ref r1 r2 r34 by blast
qed

text \<open>
  The order-sensitivity example of the specification, from the theorem: for
  \<^verbatim>\<open>[FAILURE(e1), SUCCESS, FAILURE(e2)]\<close> the aggregate is PARTIAL with the message of
  \<^verbatim>\<open>e2\<close>.
\<close>

theorem summarizeAttempts_four_rules_witness:
  "summarizeAttempts
     [\<lparr>recipient = ''a@x.com'', recipientType = STAFF, status = FAILURE, subject = ''s'',
        errorMessage = Some ''e1'', providerId = JNull, metadata = None\<rparr>,
      \<lparr>recipient = ''b@x.com'', recipientType = STAFF, status = SUCCESS, subject = ''s'',
        errorMessage = None, providerId = JStr ''id-1'', metadata = None\<rparr>,
      \<lparr>recipient = ''c@y.com'', recipientType = CUSTOMER, status = FAILURE, subject = ''s'',
        errorMessage = Some ''e2'', providerId = JNull, metadata = None\<rparr>]
   = \<lparr>notificationState = PARTIAL, lastError = Some ''e2''\<rparr>"
  using summarizeAttempts_four_rules
    [of "[\<lparr>recipient = ''a@x.com'', recipientType = STAFF, status = FAILURE, subject = ''s'',
        errorMessage = Some ''e1'', providerId = JNull, metadata = None\<rparr>,
      \<lparr>recipient = ''b@x.com'', recipientType = STAFF, status = SUCCESS, subject = ''s'',
        errorMessage = None, providerId = JStr ''id-1'', metadata = None\<rparr>,
      \<lparr>recipient = ''c@y.com'', recipientType = CUSTOMER, status = FAILURE, subject = ''s'',
        errorMessage = Some ''e2'', providerId = JNull, metadata = None\<rparr>]"]
  by (simp add: summarize_reference_def last_failure_message_def)

subsection \<open>The aggregator does not change its argument\<close>

lemma array_filter_frame:
  assumes "r < next_ref h"
  shows "arrays (snd (array_filter p r h)) (fst (array_filter p r h)) = filter p (arrays h r)"
    and "\<And>q. q < next_ref h \<Longrightarrow> arrays (snd (array_filter p r h)) q = arrays h q"
    and "next_ref (snd (array_filter p r h)) = Suc (next_ref h)"
  using assms by (simp_all add: array_filter_def)

lemma summarizeAttempts_store_frame:
  assumes "r < next_ref h"
  shows "fst (summarizeAttempts_store r h) = summarizeAttempts (arrays h r)"
    and "\<And>q. q < next_ref h \<Longrightarrow> arrays (snd (summarizeAttempts_store r h)) q = arrays h q"
    and "next_ref h \<le> next_ref (snd (summarizeAttempts_store r h))"
  using assms
  by (simp_all add: summarizeAttempts_store_def summarizeAttempts_def array_filter_def Let_def)

text \<open>
  C8. \<^verbatim>\<open>summarizeAttempts\<close> is a pure, deterministic function of its input list. On
  the store of arrays, for every array reference that is allocated: the result is the
  function \<^const>\<open>summarizeAttempts\<close> of the contents of the array and of nothing else; the
  call leaves the input array, and every other array that existed, unchanged (it only
  allocates the two filtered arrays); and a second call on the store that the first one
  leaves returns the same notification state and last error.
\<close>

theorem summarizeAttempts_pure:
  assumes "r < next_ref h"
  shows "fst (summarizeAttempts_store r h) = summarizeAttempts (arrays h r)
       \<and> (\<forall>q < next_ref h. arrays (snd (summarizeAttempts_store r h)) q = arrays h q)
       \<and> fst (summarizeAttempts_store r (snd (summarizeAttempts_store r h)))
           = fst (summarizeAttempts_store r h)"
proof -
  let ?h' = "snd (summarizeAttempts_store r h)"
  have r': "r < next_ref ?h'"
    using assms summarizeAttempts_store_frame(3) [OF assms] by simp
  have same: "arrays ?h' r = arrays h r"
    using summarizeAttempts_store_frame(2) [OF assms assms] .
  have "fst (summarizeAttempts_store r ?h') = summarizeAttempts (arrays ?h' r)"
    using summarizeAttempts_store_frame(1) [OF r'] .
  then have again: "fst (summarizeAttempts_store r ?h') = fst (summarizeAttempts_store r h)"
    by (simp add: same summarizeAttempts_store_frame(1) [OF assms])
  show ?thesis
    using summarizeAttempts_store_frame(1) [OF assms]
      summarizeAttempts_store_frame(2) [OF assms] again
    by simp
qed

text \<open>
  On the three attempts of the order-sensitivity example, stored at reference 0: both calls
  return PARTIAL with \<^verbatim>\<open>e2\<close>, and the array is still the same.
\<close>

theorem summarizeAttempts_pure_witness:
  "(0::nat) < next_ref scenario_store
   \<and> fst (summarizeAttempts_store 0 scenario_store)
       = \<lparr>notificationState = PARTIAL, lastError = Some ''e2''\<rparr>
   \<and> arrays (snd (summarizeAttempts_store 0 scenario_store)) 0 = scenario_attempts
   \<and> fst (summarizeAttempts_store 0 (snd (summarizeAttempts_store 0 scenario_store)))
       = \<lparr>notificationState = PARTIAL, lastError = Some ''e2''\<rparr>"
proof -
  have r: "(0::nat) < next_ref scenario_store"
    by (simp add: scenario_store_def)
  have a: "arrays scenario_store 0 = scenario_attempts"
    by (simp add: scenario_store_def)
  have s: "summarizeAttempts scenario_attempts
      = \<lparr>notificationState = PARTIAL, lastError = Some ''e2''\<rparr>"
    by (simp add: summarizeAttempts_def scenario_attempts_def at_minus_1_def)
  show ?thesis
    using r summarizeAttempts_pure [OF r] by (simp add: a s)
qed

section \<open>The recipient resolver\<close>

lemma getStaffRecipients_reference:
  "getStaffRecipients env =
     filter (\<lambda>a. a \<noteq> []) (map js_trim (js_split CHR '','' (case env ''ENQUIRY_STAFF_EMAIL'' of None \<Rightarrow> [] | Some s \<Rightarrow> s)))"
  by (simp add: getStaffRecipients_def js_trim_def split: option.splits)

lemma intendedRecipients_reference:
  "map (\<lambda>r. (rcpt_email r, rcpt_recipientType r)) (intendedRecipients bb env enquiry) =
     resolve_reference (case env ''ENQUIRY_STAFF_EMAIL'' of None \<Rightarrow> [] | Some s \<Rightarrow> s)
       (email enquiry)"
proof -
  have staff: "map (\<lambda>r. (rcpt_email r, rcpt_recipientType r))
        (case (if 0 < length (getStaffRecipients env) then Some (t, h) else None) of
           None \<Rightarrow> []
         | Some (text, html) \<Rightarrow>
             map (\<lambda>e. \<lparr>rcpt_email = e, rcpt_recipientType = STAFF,
                        textBody = text, htmlBody = html\<rparr>) (getStaffRecipients env))
      = map (\<lambda>a. (a, STAFF)) (getStaffRecipients env)" for t h
    by (simp add: comp_def)
  show ?thesis
    unfolding intendedRecipients_def resolve_reference_def Let_def map_append staff
    by (simp add: getStaffRecipients_reference customerRecipient_def truthy_def Let_def)
qed

text \<open>
  C5. For every staff configuration string and customer email, the resolved recipient
  list is the resolver of the specification: the staff string split on a comma, every
  entry trimmed, the empty entries dropped, each remaining entry a STAFF pair in the order
  listed, followed by one CUSTOMER pair with the trimmed customer email if and only if it
  is not empty. Nothing is deduplicated: the list has one entry per non-empty staff entry
  plus one for a non-empty customer, and an address that is both a staff entry and the
  customer appears once as STAFF and once as CUSTOMER.
\<close>

theorem intendedRecipients_resolver:
  assumes "env ''ENQUIRY_STAFF_EMAIL'' = Some staff"
  shows "map (\<lambda>r. (rcpt_email r, rcpt_recipientType r)) (intendedRecipients bb env enquiry)
           = resolve_reference staff (email enquiry)
       \<and> length (intendedRecipients bb env enquiry)
           = length (filter (\<lambda>a. a \<noteq> []) (map js_trim (js_split CHR '','' staff)))
             + (if js_trim (email enquiry) = [] then 0 else 1)
       \<and> (js_trim (email enquiry) \<noteq> [] \<and>
            js_trim (email enquiry) \<in> set (map js_trim (js_split CHR '','' staff))
          \<longrightarrow> (js_trim (email enquiry), STAFF)
                \<in> set (map (\<lambda>r. (rcpt_email r, rcpt_recipientType r))
                          (intendedRecipients bb env enquiry))
              \<and> (js_trim (email enquiry), CUSTOMER)
                \<in> set (map (\<lambda>r. (rcpt_email r, rcpt_recipientType r))
                          (intendedRecipients bb env enquiry)))"
proof -
  have eq: "map (\<lambda>r. (rcpt_email r, rcpt_recipientType r)) (intendedRecipients bb env enquiry)
           = resolve_reference staff (email enquiry)"
    using intendedRecipients_reference [of bb env enquiry] assms by simp
  have "length (intendedRecipients bb env enquiry) = length (resolve_reference staff (email enquiry))"
    using arg_cong [OF eq, of length] by simp
  then have len: "length (intendedRecipients bb env enquiry)
           = length (filter (\<lambda>a. a \<noteq> []) (map js_trim (js_split CHR '','' staff)))
             + (if js_trim (email enquiry) = [] then 0 else 1)"
    by (simp add: resolve_reference_def)
  show ?thesis
    unfolding eq using len unfolding eq
    by (auto simp: resolve_reference_def)
qed

text \<open>
  The staff list \<^verbatim>\<open>"a@x.com, ,c@y.com"\<close> with the customer \<^verbatim>\<open>" c@y.com "\<close>: the empty
  entry is dropped, and \<^verbatim>\<open>c@y.com\<close> is resolved twice.
\<close>

theorem intendedRecipients_resolver_witness:
  "scenario_dup_env ''ENQUIRY_STAFF_EMAIL'' = Some ''a@x.com, ,c@y.com''
   \<and> map (\<lambda>r. (rcpt_email r, rcpt_recipientType r))
       (intendedRecipients plain_builders scenario_dup_env scenario_enquiry)
     = [(''a@x.com'', STAFF), (''c@y.com'', STAFF), (''c@y.com'', CUSTOMER)]"
proof -
  have e: "scenario_dup_env ''ENQUIRY_STAFF_EMAIL'' = Some ''a@x.com, ,c@y.com''"
    by (simp add: scenario_dup_env_def)
  show ?thesis
    using e intendedRecipients_resolver
      [of scenario_dup_env "''a@x.com, ,c@y.com''" plain_builders scenario_enquiry]
    by (simp add: resolve_reference_def scenario_enquiry_def js_trim_def is_js_whitespace_def)
qed

section \<open>One send, and the loop over the recipients\<close>

lemma sendToRecipient_misconfigured:
  "truthy misconfig \<or> mailer = None \<or> \<not> truthy fromAddress \<Longrightarrow>
   sendToRecipient create misconfig mailer fromAddress subj atts r st =
     st\<lparr>st_attempts := st_attempts st @
        [misconfiguration_attempt subj
           (case misconfig of Some m \<Rightarrow> m | None \<Rightarrow> ''Mailer configuration is incomplete.'') r]\<rparr>"
  unfolding sendToRecipient_def misconfiguration_attempt_def by (simp only: if_True)

lemma sendToRecipient_configured:
  assumes "mailer = Some m" "fromAddress = Some sender" "sender \<noteq> []"
    and "create (client m) (domain m) (message_for sender subj atts r) (st_world st) = (res, w)"
  shows "sendToRecipient create None mailer fromAddress subj atts r st =
     \<lparr>st_attempts = st_attempts st @ [attempt_for subj r res],
      st_calls = st_calls st @ [(message_for sender subj atts r, res)],
      st_world = w\<rparr>"
  using assms unfolding sendToRecipient_def message_for_def attempt_for_def
  by (cases res) (simp_all add: truthy_def Let_def)

lemma fold_misconfigured:
  assumes "truthy misconfig \<or> mailer = None \<or> \<not> truthy fromAddress"
  shows "fold (sendToRecipient create misconfig mailer fromAddress subj atts) rs st =
     st\<lparr>st_attempts := st_attempts st @
        map (misconfiguration_attempt subj
           (case misconfig of Some m \<Rightarrow> m | None \<Rightarrow> ''Mailer configuration is incomplete.'')) rs\<rparr>"
proof (induction rs arbitrary: st)
  case Nil
  show ?case by simp
next
  case (Cons r rs)
  let ?f = "sendToRecipient create misconfig mailer fromAddress subj atts"
  let ?msg = "case misconfig of Some m \<Rightarrow> m | None \<Rightarrow> ''Mailer configuration is incomplete.''"
  have "fold ?f (r # rs) st = fold ?f rs (?f r st)" by simp
  also have "\<dots> = (?f r st)\<lparr>st_attempts := st_attempts (?f r st) @
        map (misconfiguration_attempt subj ?msg) rs\<rparr>"
    by (rule Cons.IH)
  also have "\<dots> = st\<lparr>st_attempts := st_attempts st @
        map (misconfiguration_attempt subj ?msg) (r # rs)\<rparr>"
    by (simp add: sendToRecipient_misconfigured [OF assms])
  finally show ?case .
qed

lemma fold_configured:
  assumes "mailer = Some m" "fromAddress = Some sender" "sender \<noteq> []"
  shows "\<exists>cs. length cs = length rs
      \<and> map fst cs = map (message_for sender subj atts) rs
      \<and> st_calls (fold (sendToRecipient create None mailer fromAddress subj atts) rs st)
          = st_calls st @ cs
      \<and> st_attempts (fold (sendToRecipient create None mailer fromAddress subj atts) rs st)
          = st_attempts st @ map2 (attempt_for subj) rs (map snd cs)"
proof (induction rs arbitrary: st)
  case Nil
  show ?case by simp
next
  case (Cons r rs)
  obtain res w where cr:
    "create (client m) (domain m) (message_for sender subj atts r) (st_world st) = (res, w)"
    by (cases "create (client m) (domain m) (message_for sender subj atts r) (st_world st)")
  let ?st1 = "\<lparr>st_attempts = st_attempts st @ [attempt_for subj r res],
      st_calls = st_calls st @ [(message_for sender subj atts r, res)],
      st_world = w\<rparr>"
  have step: "sendToRecipient create None mailer fromAddress subj atts r st = ?st1"
    by (rule sendToRecipient_configured [OF assms(1) assms(2) assms(3)]) (rule cr)
  from Cons.IH [of ?st1] obtain cs where cs:
    "length cs = length rs"
    "map fst cs = map (message_for sender subj atts) rs"
    "st_calls (fold (sendToRecipient create None mailer fromAddress subj atts) rs ?st1)
       = st_calls ?st1 @ cs"
    "st_attempts (fold (sendToRecipient create None mailer fromAddress subj atts) rs ?st1)
       = st_attempts ?st1 @ map2 (attempt_for subj) rs (map snd cs)"
    by blast
  let ?cs = "(message_for sender subj atts r, res) # cs"
  have "length ?cs = length (r # rs)" using cs(1) by simp
  moreover have "map fst ?cs = map (message_for sender subj atts) (r # rs)"
    using cs(2) by simp
  moreover have "st_calls (fold (sendToRecipient create None mailer fromAddress subj atts) (r # rs) st)
       = st_calls st @ ?cs"
    using cs(3) by (simp add: step)
  moreover have "st_attempts (fold (sendToRecipient create None mailer fromAddress subj atts) (r # rs) st)
       = st_attempts st @ map2 (attempt_for subj) (r # rs) (map snd ?cs)"
    using cs(4) by (simp add: step)
  ultimately show ?case by blast
qed

lemma getMailer_Some:
  "getMailer env = Some m \<Longrightarrow> fromEmail m \<noteq> [] \<and> env ''MAILGUN_FROM_EMAIL'' = Some (fromEmail m)"
  unfolding getMailer_def Let_def
  by (auto simp: truthy_def split: if_splits option.splits)

lemma getMailer_None:
  "(getMailer env = None) =
     (\<not> truthy (env ''MAILGUN_API_KEY'') \<or> \<not> truthy (env ''MAILGUN_DOMAIN'')
      \<or> \<not> truthy (env ''MAILGUN_FROM_EMAIL''))"
  unfolding getMailer_def Let_def
  by (auto simp: truthy_def split: if_splits option.splits)

lemma map_map2_left:
  assumes "length xs = length ys" "\<And>x y. h (g x y) = k x"
  shows "map h (map2 g xs ys) = map k xs"
  using assms(1) by (induction xs ys rule: list_induct2) (simp_all add: assms(2))

lemma attempt_for_recipient:
  "recipient (attempt_for subj r res) = rcpt_email r"
  "recipientType (attempt_for subj r res) = rcpt_recipientType r"
  "subject (attempt_for subj r res) = subj"
  by (cases res; simp add: attempt_for_def)+

lemma attempt_for_status:
  "status (attempt_for subj r (Resolved v)) = SUCCESS"
  "status (attempt_for subj r (Rejected e)) = FAILURE"
  "errorMessage (attempt_for subj r (Resolved v)) = None"
  "errorMessage (attempt_for subj r (Rejected e)) = Some (normalizeErrorMessage e)"
  "providerId (attempt_for subj r (Rejected e)) = JNull"
  "providerId (attempt_for subj r (Resolved v)) =
     (if is_object v \<and> js_in ''id'' v then js_get v ''id'' else JNull)"
  "metadata (attempt_for subj r (Resolved v)) = buildSuccessMetadata v"
  "metadata (attempt_for subj r (Rejected e)) = buildErrorMetadata e"
  by (simp_all add: attempt_for_def)

section \<open>The three courses of a dispatch\<close>

text \<open>
  No recipient: the synthetic attempt. Recipients but no mailer: one misconfiguration
  attempt each and no provider call. Recipients and a mailer: one provider call each, in
  order, and for each call the attempt that records its result.
\<close>

lemma sendEnquiryEmails_empty:
  assumes "intendedRecipients bb env enquiry = []"
  shows "sendEnquiryEmails bb env create enquiry attachment w0 =
    (\<lparr>notificationState = FAILED, lastError = Some NO_RECIPIENTS,
      attempts = [\<lparr>recipient = ''n/a'', recipientType = OTHER, status = FAILURE,
                   subject = buildSubject enquiry, errorMessage = Some NO_RECIPIENTS,
                   providerId = JNull, metadata = None\<rparr>]\<rparr>, [], w0)"
  using assms
  by (simp add: sendEnquiryEmails_def Let_def summarize_all_failures)

lemma sendEnquiryEmails_unconfigured:
  assumes "intendedRecipients bb env enquiry \<noteq> []" "getMailer env = None"
  shows "sendEnquiryEmails bb env create enquiry attachment w0 =
    (\<lparr>notificationState = FAILED,
      lastError = Some ''Mailgun client is not configured.'',
      attempts = map (misconfiguration_attempt (buildSubject enquiry)
                        ''Mailgun client is not configured.'')
                   (intendedRecipients bb env enquiry)\<rparr>, [], w0)"
proof -
  let ?rs = "intendedRecipients bb env enquiry"
  let ?atts = "map (misconfiguration_attempt (buildSubject enquiry)
                        ''Mailgun client is not configured.'') ?rs"
  have mis: "misconfigurationError None None = Some ''Mailgun client is not configured.''"
    by (simp add: misconfigurationError_def)
  have fold: "fold (sendToRecipient create (Some ''Mailgun client is not configured.'') None None
                 (buildSubject enquiry) (attachmentsOf attachment)) ?rs
               \<lparr>st_attempts = [], st_calls = [], st_world = w0\<rparr>
             = \<lparr>st_attempts = ?atts, st_calls = [], st_world = w0\<rparr>"
    by (subst fold_misconfigured) simp_all
  have "list_all (\<lambda>a. status a = FAILURE) ?atts"
    by (simp add: list_all_iff misconfiguration_attempt_def)
  with assms(1) have sum: "summarizeAttempts ?atts =
      \<lparr>notificationState = FAILED, lastError = Some ''Mailgun client is not configured.''\<rparr>"
    by (simp add: summarize_all_failures last_map misconfiguration_attempt_def)
  show ?thesis
    using assms by (simp add: sendEnquiryEmails_def Let_def mis fold sum)
qed

lemma sendEnquiryEmails_configured:
  assumes "intendedRecipients bb env enquiry \<noteq> []" "getMailer env = Some m"
  shows "\<exists>cs w. length cs = length (intendedRecipients bb env enquiry)
      \<and> map fst cs = map (message_for (fromEmail m) (buildSubject enquiry)
                             (attachmentsOf attachment)) (intendedRecipients bb env enquiry)
      \<and> sendEnquiryEmails bb env create enquiry attachment w0 =
          (\<lparr>notificationState = notificationState (summarizeAttempts
               (map2 (attempt_for (buildSubject enquiry))
                  (intendedRecipients bb env enquiry) (map snd cs))),
            lastError = lastError (summarizeAttempts
               (map2 (attempt_for (buildSubject enquiry))
                  (intendedRecipients bb env enquiry) (map snd cs))),
            attempts = map2 (attempt_for (buildSubject enquiry))
                  (intendedRecipients bb env enquiry) (map snd cs)\<rparr>, cs, w)"
proof -
  let ?rs = "intendedRecipients bb env enquiry"
  let ?f = "sendToRecipient create None (Some m) (Some (fromEmail m))
                 (buildSubject enquiry) (attachmentsOf attachment)"
  let ?st0 = "\<lparr>st_attempts = [], st_calls = [], st_world = w0\<rparr>"
  have ne: "fromEmail m \<noteq> []" using getMailer_Some [OF assms(2)] by simp
  then have mis: "misconfigurationError (Some m) (Some (fromEmail m)) = None"
    by (simp add: misconfigurationError_def truthy_def)
  from fold_configured [OF refl refl ne, of ?rs "buildSubject enquiry" "attachmentsOf attachment" create m ?st0]
  obtain cs where cs: "length cs = length ?rs"
     "map fst cs = map (message_for (fromEmail m) (buildSubject enquiry)
                             (attachmentsOf attachment)) ?rs"
     "st_calls (fold ?f ?rs ?st0) = cs"
     "st_attempts (fold ?f ?rs ?st0) = map2 (attempt_for (buildSubject enquiry)) ?rs (map snd cs)"
    by auto
  have "sendEnquiryEmails bb env create enquiry attachment w0 =
          (\<lparr>notificationState = notificationState (summarizeAttempts
               (map2 (attempt_for (buildSubject enquiry)) ?rs (map snd cs))),
            lastError = lastError (summarizeAttempts
               (map2 (attempt_for (buildSubject enquiry)) ?rs (map snd cs))),
            attempts = map2 (attempt_for (buildSubject enquiry)) ?rs (map snd cs)\<rparr>,
           cs, st_world (fold ?f ?rs ?st0))"
    using assms by (simp add: sendEnquiryEmails_def Let_def mis cs(3) cs(4))
  with cs(1) cs(2) show ?thesis by blast
qed

lemma sendEnquiryEmails_summary:
  "notificationState (fst (sendEnquiryEmails bb env create enquiry attachment w0)) =
     notificationState (summarizeAttempts
       (attempts (fst (sendEnquiryEmails bb env create enquiry attachment w0))))"
  "lastError (fst (sendEnquiryEmails bb env create enquiry attachment w0)) =
     lastError (summarizeAttempts
       (attempts (fst (sendEnquiryEmails bb env create enquiry attachment w0))))"
  by (simp_all add: sendEnquiryEmails_def Let_def)

lemma sendEnquiryEmails_configured_trace:
  assumes "intendedRecipients bb env enquiry \<noteq> []" "getMailer env = Some m"
  shows "\<exists>cs. length cs = length (intendedRecipients bb env enquiry)
      \<and> map fst cs = map (message_for (fromEmail m) (buildSubject enquiry)
                             (attachmentsOf attachment)) (intendedRecipients bb env enquiry)
      \<and> fst (snd (sendEnquiryEmails bb env create enquiry attachment w0)) = cs
      \<and> attempts (fst (sendEnquiryEmails bb env create enquiry attachment w0)) =
          map2 (attempt_for (buildSubject enquiry)) (intendedRecipients bb env enquiry)
            (map snd cs)"
proof -
  from sendEnquiryEmails_configured [OF assms, of attachment create w0]
  obtain cs w where cs: "length cs = length (intendedRecipients bb env enquiry)"
    "map fst cs = map (message_for (fromEmail m) (buildSubject enquiry)
                             (attachmentsOf attachment)) (intendedRecipients bb env enquiry)"
    and full: "sendEnquiryEmails bb env create enquiry attachment w0 =
          (\<lparr>notificationState = notificationState (summarizeAttempts
               (map2 (attempt_for (buildSubject enquiry))
                  (intendedRecipients bb env enquiry) (map snd cs))),
            lastError = lastError (summarizeAttempts
               (map2 (attempt_for (buildSubject enquiry))
                  (intendedRecipients bb env enquiry) (map snd cs))),
            attempts = map2 (attempt_for (buildSubject enquiry))
                  (intendedRecipients bb env enquiry) (map snd cs)\<rparr>, cs, w)"
    by blast
  show ?thesis
    using cs by (intro exI [of _ cs]) (simp add: full)
qed

lemma sendEnquiryEmails_calls_empty:
  "getMailer env = None \<or> intendedRecipients bb env enquiry = [] \<Longrightarrow>
   fst (snd (sendEnquiryEmails bb env create enquiry attachment w0)) = []"
  using sendEnquiryEmails_empty [of bb env enquiry create attachment w0]
    sendEnquiryEmails_unconfigured [of bb env enquiry create attachment w0]
  by (cases "intendedRecipients bb env enquiry = []") auto

lemma sendEnquiryEmails_call_attempt:
  assumes "i < length (fst (snd (sendEnquiryEmails bb env create enquiry attachment w0)))"
  shows "length (attempts (fst (sendEnquiryEmails bb env create enquiry attachment w0)))
           = length (fst (snd (sendEnquiryEmails bb env create enquiry attachment w0)))
       \<and> length (intendedRecipients bb env enquiry)
           = length (fst (snd (sendEnquiryEmails bb env create enquiry attachment w0)))
       \<and> msg_to (fst (fst (snd (sendEnquiryEmails bb env create enquiry attachment w0)) ! i))
           = rcpt_email (intendedRecipients bb env enquiry ! i)
       \<and> attempts (fst (sendEnquiryEmails bb env create enquiry attachment w0)) ! i
           = attempt_for (buildSubject enquiry) (intendedRecipients bb env enquiry ! i)
               (snd (fst (snd (sendEnquiryEmails bb env create enquiry attachment w0)) ! i))"
proof -
  let ?rs = "intendedRecipients bb env enquiry"
  let ?calls = "fst (snd (sendEnquiryEmails bb env create enquiry attachment w0))"
  from assms have "?calls \<noteq> []" by auto
  with sendEnquiryEmails_calls_empty [of env bb enquiry create attachment w0]
  have "\<not> (getMailer env = None \<or> ?rs = [])" by blast
  then have ne: "?rs \<noteq> []" and gm: "getMailer env \<noteq> None" by simp_all
  from gm obtain m where m: "getMailer env = Some m" by (cases "getMailer env") simp_all
  from sendEnquiryEmails_configured_trace [OF ne m, of attachment create w0]
  obtain cs where cs: "length cs = length ?rs"
     "map fst cs = map (message_for (fromEmail m) (buildSubject enquiry)
                             (attachmentsOf attachment)) ?rs"
     "?calls = cs"
     "attempts (fst (sendEnquiryEmails bb env create enquiry attachment w0)) =
          map2 (attempt_for (buildSubject enquiry)) ?rs (map snd cs)"
    by blast
  have i: "i < length cs" "i < length ?rs" using assms cs(1) cs(3) by simp_all
  have "fst (cs ! i) = message_for (fromEmail m) (buildSubject enquiry)
                             (attachmentsOf attachment) (?rs ! i)"
    using arg_cong [OF cs(2), of "\<lambda>xs. xs ! i"] i by simp
  then have to: "msg_to (fst (cs ! i)) = rcpt_email (?rs ! i)"
    by (simp add: message_for_def)
  have att: "map2 (attempt_for (buildSubject enquiry)) ?rs (map snd cs) ! i
      = attempt_for (buildSubject enquiry) (?rs ! i) (snd (cs ! i))"
    using i by simp
  show ?thesis
    unfolding cs(4) unfolding cs(3) using cs(1) to att by simp
qed

section \<open>The scenarios, evaluated\<close>

lemma scenario_staff: "getStaffRecipients scenario_env = [''a@x.com'', ''b@x.com'']"
  by (simp add: getStaffRecipients_def scenario_env_def js_trim_def is_js_whitespace_def)

lemma scenario_customer: "customerRecipient scenario_enquiry = Some ''c@y.com''"
  by (simp add: customerRecipient_def scenario_enquiry_def js_trim_def is_js_whitespace_def)

lemma scenario_recipients:
  "intendedRecipients plain_builders scenario_env scenario_enquiry
    = [\<lparr>rcpt_email = ''a@x.com'', rcpt_recipientType = STAFF, textBody = staffMessage, htmlBody = staffMessage\<rparr>,
       \<lparr>rcpt_email = ''b@x.com'', rcpt_recipientType = STAFF, textBody = staffMessage, htmlBody = staffMessage\<rparr>,
       \<lparr>rcpt_email = ''c@y.com'', rcpt_recipientType = CUSTOMER, textBody = customerMessage, htmlBody = customerMessage\<rparr>]"
  by (simp add: intendedRecipients_def scenario_staff scenario_customer truthy_def plain_builders_def)

lemma scenario_mailer: "getMailer scenario_env = Some \<lparr>client = \<lparr>username = ''api'', key = ''key-1'', url = None\<rparr>,
   domain = ''mg.x.com'', fromEmail = ''noreply@x.com''\<rparr>"
  by (simp add: getMailer_def scenario_env_def truthy_def)

lemma scenario_subject: "buildSubject scenario_enquiry = ''[Free Visual] Ada''"
  by (simp add: buildSubject_def scenario_enquiry_def)

lemma scenario_B:
  "sendEnquiryEmails plain_builders scenario_env provider_rejects_b scenario_enquiry None 0
    = (\<lparr>notificationState = PARTIAL, lastError = Some ''Forbidden'',
        attempts =
       [\<lparr>recipient = ''a@x.com'', recipientType = STAFF, status = SUCCESS,
           subject = ''[Free Visual] Ada'', errorMessage = None,
           providerId = JStr ''<1@mg.x.com>'',
           metadata = Some [(''message'', JStr ''Queued'')]\<rparr>,
        \<lparr>recipient = ''b@x.com'', recipientType = STAFF, status = FAILURE,
           subject = ''[Free Visual] Ada'',
           errorMessage = Some ''Forbidden'', providerId = JNull,
           metadata =
             Some
              [(''name'', JStr ''Error''), (''status'', JNum 403),
               (''code'', JNull), (''details'', JNull)]\<rparr>,
        \<lparr>recipient = ''c@y.com'', recipientType = CUSTOMER,
           status = SUCCESS, subject = ''[Free Visual] Ada'',
           errorMessage = None, providerId = JStr ''<1@mg.x.com>'',
           metadata = Some [(''message'', JStr ''Queued'')]\<rparr>]\<rparr>,
       [(message_for ''noreply@x.com'' ''[Free Visual] Ada'' None
           \<lparr>rcpt_email = ''a@x.com'', rcpt_recipientType = STAFF, textBody = staffMessage, htmlBody = staffMessage\<rparr>,
         Resolved (JObject [(''id'', JStr ''<1@mg.x.com>''), (''message'', JStr ''Queued'')])),
        (message_for ''noreply@x.com'' ''[Free Visual] Ada'' None
           \<lparr>rcpt_email = ''b@x.com'', rcpt_recipientType = STAFF, textBody = staffMessage, htmlBody = staffMessage\<rparr>,
         Rejected (JError ''Forbidden'' [(''status'', JNum 403)])),
        (message_for ''noreply@x.com'' ''[Free Visual] Ada'' None
           \<lparr>rcpt_email = ''c@y.com'', rcpt_recipientType = CUSTOMER, textBody = customerMessage, htmlBody = customerMessage\<rparr>,
         Resolved (JObject [(''id'', JStr ''<1@mg.x.com>''), (''message'', JStr ''Queued'')]))],
       3)"
  by (simp add: sendEnquiryEmails_def scenario_recipients scenario_mailer Let_def
      misconfigurationError_def truthy_def sendToRecipient_def provider_rejects_b_def
      scenario_subject attachmentsOf_def message_for_def
      buildSuccessMetadata_def buildErrorMetadata_def nullish_def
      summarizeAttempts_def at_minus_1_def)

lemma scenario_C_subject: "buildSubject scenario_C_enquiry = ''[Free Visual] Ada''"
  by (simp add: buildSubject_def scenario_C_enquiry_def)

lemma scenario_D_recipients:
  "intendedRecipients plain_builders scenario_D_env scenario_C_enquiry =
      [\<lparr>rcpt_email = ''a@x.com'', rcpt_recipientType = STAFF, textBody = staffMessage,
        htmlBody = staffMessage\<rparr>]"
  by (simp add: intendedRecipients_def getStaffRecipients_def customerRecipient_def
        scenario_C_enquiry_def scenario_D_env_def js_trim_def is_js_whitespace_def truthy_def
        plain_builders_def)

lemma scenario_D_mailer: "getMailer scenario_D_env = None"
  by (simp add: getMailer_def scenario_D_env_def truthy_def)

lemma scenario_D:
  "sendEnquiryEmails plain_builders scenario_D_env provider_rejects_b scenario_C_enquiry None 0 =
    (\<lparr>notificationState = FAILED,
      lastError = Some ''Mailgun client is not configured.'',
      attempts = [\<lparr>recipient = ''a@x.com'', recipientType = STAFF,
                   status = FAILURE, subject = ''[Free Visual] Ada'',
                   errorMessage = Some ''Mailgun client is not configured.'',
                   providerId = JNull,
                   metadata = Some [(''reason'', JStr ''missing_mailer_configuration'')]\<rparr>]\<rparr>, [], 0)"
  by (subst sendEnquiryEmails_unconfigured)
     (simp_all add: scenario_D_recipients scenario_D_mailer scenario_C_subject
        misconfiguration_attempt_def)

section \<open>Properties of the dispatch\<close>

text \<open>
  C2. For every non-empty resolved recipient list and whatever the provider does at each
  send (it resolves or it throws), \<^verbatim>\<open>sendEnquiryEmails\<close> returns exactly one attempt per
  intended recipient, in resolver order: the recipient address and the recipient type of
  the i-th attempt are those of the i-th resolved recipient. So a failure for one recipient
  never prevents the attempt record of a later one.
\<close>

theorem sendEnquiryEmails_attempt_per_recipient:
  assumes "intendedRecipients bb env enquiry \<noteq> []"
  shows "map (\<lambda>a. (recipient a, recipientType a))
           (attempts (fst (sendEnquiryEmails bb env create enquiry attachment w0)))
         = map (\<lambda>r. (rcpt_email r, rcpt_recipientType r)) (intendedRecipients bb env enquiry)"
proof (cases "getMailer env")
  case None
  show ?thesis
    by (simp add: sendEnquiryEmails_unconfigured [OF assms None] misconfiguration_attempt_def comp_def)
next
  case (Some m)
  from sendEnquiryEmails_configured [OF assms Some, of attachment create w0]
  obtain cs w where cs: "length cs = length (intendedRecipients bb env enquiry)"
    and full: "sendEnquiryEmails bb env create enquiry attachment w0 =
          (\<lparr>notificationState = notificationState (summarizeAttempts
               (map2 (attempt_for (buildSubject enquiry))
                  (intendedRecipients bb env enquiry) (map snd cs))),
            lastError = lastError (summarizeAttempts
               (map2 (attempt_for (buildSubject enquiry))
                  (intendedRecipients bb env enquiry) (map snd cs))),
            attempts = map2 (attempt_for (buildSubject enquiry))
                  (intendedRecipients bb env enquiry) (map snd cs)\<rparr>, cs, w)"
    by blast
  have out: "attempts (fst (sendEnquiryEmails bb env create enquiry attachment w0))
       = map2 (attempt_for (buildSubject enquiry)) (intendedRecipients bb env enquiry) (map snd cs)"
    by (simp add: full)
  show ?thesis
    unfolding out
    by (rule map_map2_left) (simp_all add: cs attempt_for_recipient)
qed

text \<open>
  Scenario B: the provider rejects the message to \<^verbatim>\<open>b@x.com\<close>; the attempts are still
  those of the three recipients, in order.
\<close>

theorem sendEnquiryEmails_attempt_per_recipient_witness:
  "intendedRecipients plain_builders scenario_env scenario_enquiry \<noteq> []
   \<and> map (\<lambda>a. (recipient a, recipientType a))
       (attempts (fst (sendEnquiryEmails plain_builders scenario_env provider_rejects_b
                         scenario_enquiry None 0)))
     = [(''a@x.com'', STAFF), (''b@x.com'', STAFF), (''c@y.com'', CUSTOMER)]"
proof -
  have ne: "intendedRecipients plain_builders scenario_env scenario_enquiry \<noteq> []"
    by (simp add: scenario_recipients)
  show ?thesis
    using ne sendEnquiryEmails_attempt_per_recipient [OF ne, of provider_rejects_b None 0]
    by (simp add: scenario_recipients)
qed

text \<open>
  C4. For every input whose resolved recipient list is empty, \<^verbatim>\<open>sendEnquiryEmails\<close>
  makes no provider call (the trace is empty and the world is the initial one) and returns
  exactly one synthetic attempt: recipient type OTHER, recipient \<^verbatim>\<open>"n/a"\<close>, status
  FAILURE, the error message "No email recipients configured for enquiry notifications",
  provider id null; the aggregate is FAILED with the same message.
\<close>

theorem sendEnquiryEmails_no_recipients:
  assumes "intendedRecipients bb env enquiry = []"
  shows "sendEnquiryEmails bb env create enquiry attachment w0 =
    (\<lparr>notificationState = FAILED,
      lastError = Some ''No email recipients configured for enquiry notifications'',
      attempts = [\<lparr>recipient = ''n/a'', recipientType = OTHER, status = FAILURE,
                   subject = buildSubject enquiry,
                   errorMessage = Some ''No email recipients configured for enquiry notifications'',
                   providerId = JNull, metadata = None\<rparr>]\<rparr>, [], w0)"
  using sendEnquiryEmails_empty [OF assms] by (simp add: NO_RECIPIENTS_def)

text \<open>
  Scenario C: no staff list and a blank customer address.
\<close>

theorem sendEnquiryEmails_no_recipients_witness:
  "intendedRecipients plain_builders Map.empty scenario_C_enquiry = []
   \<and> sendEnquiryEmails plain_builders Map.empty provider_rejects_b scenario_C_enquiry None 0 =
    (\<lparr>notificationState = FAILED,
      lastError = Some ''No email recipients configured for enquiry notifications'',
      attempts = [\<lparr>recipient = ''n/a'', recipientType = OTHER, status = FAILURE,
                   subject = ''[Free Visual] Ada'',
                   errorMessage = Some ''No email recipients configured for enquiry notifications'',
                   providerId = JNull, metadata = None\<rparr>]\<rparr>, [], 0)"
proof -
  have e: "intendedRecipients plain_builders Map.empty scenario_C_enquiry = []"
    by (simp add: intendedRecipients_def getStaffRecipients_def customerRecipient_def
        scenario_C_enquiry_def js_trim_def is_js_whitespace_def truthy_def)
  show ?thesis
    using e sendEnquiryEmails_no_recipients [OF e, of provider_rejects_b None 0]
    by (simp add: scenario_C_subject)
qed

text \<open>
  C6. For every non-empty resolved recipient list, when the transport is not configured
  (\<^verbatim>\<open>getMailer\<close> returns null), \<^verbatim>\<open>sendEnquiryEmails\<close> makes no provider call and
  records for each intended recipient, in order, one FAILURE attempt whose error message
  is "Mailgun client is not configured." and whose provider id is null; the aggregate is
  FAILED with that message.
\<close>

theorem sendEnquiryEmails_transport_unconfigured:
  assumes "intendedRecipients bb env enquiry \<noteq> []" and "getMailer env = None"
  shows "sendEnquiryEmails bb env create enquiry attachment w0 =
    (\<lparr>notificationState = FAILED,
      lastError = Some ''Mailgun client is not configured.'',
      attempts = map (\<lambda>r. \<lparr>recipient = rcpt_email r, recipientType = rcpt_recipientType r,
                           status = FAILURE, subject = buildSubject enquiry,
                           errorMessage = Some ''Mailgun client is not configured.'',
                           providerId = JNull,
                           metadata = Some [(''reason'', JStr ''missing_mailer_configuration'')]\<rparr>)
                   (intendedRecipients bb env enquiry)\<rparr>, [], w0)"
  using sendEnquiryEmails_unconfigured [OF assms]
  by (simp add: misconfiguration_attempt_def [abs_def])

text \<open>
  Scenario D: no Mailgun variable is set and the staff list is \<^verbatim>\<open>"a@x.com"\<close>: exactly
  one FAILURE attempt, and the state FAILED.
\<close>

theorem sendEnquiryEmails_transport_unconfigured_witness:
  "intendedRecipients plain_builders scenario_D_env scenario_C_enquiry \<noteq> []
   \<and> getMailer scenario_D_env = None
   \<and> sendEnquiryEmails plain_builders scenario_D_env provider_rejects_b scenario_C_enquiry None 0 =
    (\<lparr>notificationState = FAILED,
      lastError = Some ''Mailgun client is not configured.'',
      attempts = [\<lparr>recipient = ''a@x.com'', recipientType = STAFF,
                   status = FAILURE, subject = ''[Free Visual] Ada'',
                   errorMessage = Some ''Mailgun client is not configured.'',
                   providerId = JNull,
                   metadata = Some [(''reason'', JStr ''missing_mailer_configuration'')]\<rparr>]\<rparr>, [], 0)"
proof -
  have r: "intendedRecipients plain_builders scenario_D_env scenario_C_enquiry =
      [\<lparr>rcpt_email = ''a@x.com'', rcpt_recipientType = STAFF, textBody = staffMessage,
        htmlBody = staffMessage\<rparr>]"
    by (simp add: intendedRecipients_def getStaffRecipients_def customerRecipient_def
        scenario_C_enquiry_def scenario_D_env_def js_trim_def is_js_whitespace_def truthy_def
        plain_builders_def)
  then have ne: "intendedRecipients plain_builders scenario_D_env scenario_C_enquiry \<noteq> []"
    by simp
  have m: "getMailer scenario_D_env = None"
    by (simp add: getMailer_def scenario_D_env_def truthy_def)
  show ?thesis
    using ne m sendEnquiryEmails_transport_unconfigured [OF ne m, of provider_rejects_b None 0]
    by (simp add: r scenario_C_subject)
qed

text \<open>
  C7. For the i-th provider call of a dispatch, the i-th attempt records its result. When
  the provider threw, the attempt is a FAILURE whose error message is the \<^verbatim>\<open>message\<close> of
  the error when it is an \<^verbatim>\<open>Error\<close> instance, the string itself when a string was
  thrown, and "Unknown error sending email" otherwise. When the provider resolved, the
  attempt is a SUCCESS whose provider id is the \<^verbatim>\<open>id\<close> property of the response when
  the response is an object that has one, and null otherwise.
\<close>

theorem sendEnquiryEmails_normalized_results:
  assumes "sendEnquiryEmails bb env create enquiry attachment w0 = (out, calls, w)"
    and "i < length calls"
  shows "length (attempts out) = length calls
     \<and> recipient (attempts out ! i) = msg_to (fst (calls ! i))
     \<and> (case snd (calls ! i) of
          Rejected error \<Rightarrow>
            status (attempts out ! i) = FAILURE \<and>
            errorMessage (attempts out ! i) =
              Some (case error of
                      JError message props \<Rightarrow> message
                    | JStr s \<Rightarrow> s
                    | _ \<Rightarrow> ''Unknown error sending email'')
        | Resolved response \<Rightarrow>
            status (attempts out ! i) = SUCCESS \<and>
            providerId (attempts out ! i) =
              (case response of
                 JObject props \<Rightarrow> (case map_of props ''id'' of Some v \<Rightarrow> v | None \<Rightarrow> JNull)
               | JError message props \<Rightarrow>
                   (case map_of props ''id'' of Some v \<Rightarrow> v | None \<Rightarrow> JNull)
               | _ \<Rightarrow> JNull))"
proof -
  have i: "i < length (fst (snd (sendEnquiryEmails bb env create enquiry attachment w0)))"
    using assms by simp
  note rel = sendEnquiryEmails_call_attempt [OF i, unfolded assms(1), simplified]
  have norm: "normalizeErrorMessage e =
      (case e of JError message props \<Rightarrow> message | JStr s \<Rightarrow> s
       | _ \<Rightarrow> ''Unknown error sending email'')" for e
    by (cases e) simp_all
  have pid: "(if is_object v \<and> js_in ''id'' v then js_get v ''id'' else JNull) =
      (case v of
         JObject props \<Rightarrow> (case map_of props ''id'' of Some x \<Rightarrow> x | None \<Rightarrow> JNull)
       | JError message props \<Rightarrow> (case map_of props ''id'' of Some x \<Rightarrow> x | None \<Rightarrow> JNull)
       | _ \<Rightarrow> JNull)" for v
    by (cases v) (auto split: option.splits)
  show ?thesis
  proof (cases "snd (calls ! i)")
    case (Resolved v)
    then show ?thesis using rel
      by (simp add: attempt_for_recipient attempt_for_status pid [symmetric])
  next
    case (Rejected e)
    then show ?thesis using rel
      by (simp add: attempt_for_recipient attempt_for_status norm [symmetric])
  qed
qed

text \<open>
  Scenario B: the second call throws \<^verbatim>\<open>Error("Forbidden")\<close>, the first resolves with an
  object whose \<^verbatim>\<open>id\<close> is \<^verbatim>\<open>"<1@mg.x.com>"\<close>.
\<close>

theorem sendEnquiryEmails_normalized_results_witness:
  "sendEnquiryEmails plain_builders scenario_env provider_rejects_b scenario_enquiry None 0
     = (fst (sendEnquiryEmails plain_builders scenario_env provider_rejects_b scenario_enquiry None 0),
        fst (snd (sendEnquiryEmails plain_builders scenario_env provider_rejects_b scenario_enquiry None 0)),
        3)
   \<and> (1::nat) < length (fst (snd (sendEnquiryEmails plain_builders scenario_env provider_rejects_b
                        scenario_enquiry None 0)))
   \<and> snd (fst (snd (sendEnquiryEmails plain_builders scenario_env provider_rejects_b
                        scenario_enquiry None 0)) ! 1)
       = Rejected (JError ''Forbidden'' [(''status'', JNum 403)])
   \<and> status (attempts (fst (sendEnquiryEmails plain_builders scenario_env provider_rejects_b
                        scenario_enquiry None 0)) ! 1) = FAILURE
   \<and> errorMessage (attempts (fst (sendEnquiryEmails plain_builders scenario_env provider_rejects_b
                        scenario_enquiry None 0)) ! 1) = Some ''Forbidden''
   \<and> snd (fst (snd (sendEnquiryEmails plain_builders scenario_env provider_rejects_b
                        scenario_enquiry None 0)) ! 0)
       = Resolved (JObject [(''id'', JStr ''<1@mg.x.com>''), (''message'', JStr ''Queued'')])
   \<and> providerId (attempts (fst (sendEnquiryEmails plain_builders scenario_env provider_rejects_b
                        scenario_enquiry None 0)) ! 0) = JStr ''<1@mg.x.com>''"
proof -
  let ?r = "sendEnquiryEmails plain_builders scenario_env provider_rejects_b scenario_enquiry None 0"
  have full: "?r = (fst ?r, fst (snd ?r), 3)"
    by (simp add: scenario_B)
  have len: "length (fst (snd ?r)) = 3"
    by (simp add: scenario_B)
  have c1: "snd (fst (snd ?r) ! 1) = Rejected (JError ''Forbidden'' [(''status'', JNum 403)])"
    and c0: "snd (fst (snd ?r) ! 0)
       = Resolved (JObject [(''id'', JStr ''<1@mg.x.com>''), (''message'', JStr ''Queued'')])"
    by (simp_all add: scenario_B)
  from len have i1: "1 < length (fst (snd ?r))" and i0: "0 < length (fst (snd ?r))" by simp_all
  show ?thesis
    using full i1 c1 c0
      sendEnquiryEmails_normalized_results [OF full i1]
      sendEnquiryEmails_normalized_results [OF full i0]
    by simp
qed

text \<open>
  C9. Every attempt that \<^verbatim>\<open>sendEnquiryEmails\<close> returns (real, synthetic or
  misconfiguration) satisfies: if its status is SUCCESS its error message is null; if its
  status is FAILURE its provider id is null; and its subject is the subject built for the
  enquiry, so all attempts of one dispatch carry the same subject.
\<close>

theorem sendEnquiryEmails_attempt_invariant:
  assumes "a \<in> set (attempts (fst (sendEnquiryEmails bb env create enquiry attachment w0)))"
  shows "(status a = SUCCESS \<longrightarrow> errorMessage a = None)
       \<and> (status a = FAILURE \<longrightarrow> providerId a = JNull)
       \<and> subject a = buildSubject enquiry"
proof (cases "intendedRecipients bb env enquiry = []")
  case True
  with assms show ?thesis
    by (simp add: sendEnquiryEmails_empty)
next
  case ne: False
  show ?thesis
  proof (cases "getMailer env")
    case None
    with assms ne show ?thesis
      by (auto simp: sendEnquiryEmails_unconfigured misconfiguration_attempt_def)
  next
    case (Some m)
    from sendEnquiryEmails_configured_trace [OF ne Some, of attachment create w0]
    obtain cs :: "(MailgunMessageData \<times> send_result) list"
      where "length cs = length (intendedRecipients bb env enquiry)"
      and cs: "attempts (fst (sendEnquiryEmails bb env create enquiry attachment w0)) =
          map2 (attempt_for (buildSubject enquiry)) (intendedRecipients bb env enquiry)
            (map snd cs)"
      by blast
    from assms obtain r res where "a = attempt_for (buildSubject enquiry) r res"
      unfolding cs by (auto simp: set_zip)
    then show ?thesis
      by (cases res) (simp_all add: attempt_for_def)
  qed
qed

text \<open>
  The FAILURE attempt of scenario B.
\<close>

theorem sendEnquiryEmails_attempt_invariant_witness:
  "\<lparr>recipient = ''b@x.com'', recipientType = STAFF, status = FAILURE,
     subject = ''[Free Visual] Ada'', errorMessage = Some ''Forbidden'', providerId = JNull,
     metadata = Some [(''name'', JStr ''Error''), (''status'', JNum 403),
                      (''code'', JNull), (''details'', JNull)]\<rparr>
     \<in> set (attempts (fst (sendEnquiryEmails plain_builders scenario_env provider_rejects_b
                             scenario_enquiry None 0)))
   \<and> buildSubject scenario_enquiry = ''[Free Visual] Ada''"
proof -
  let ?a = "\<lparr>recipient = ''b@x.com'', recipientType = STAFF, status = FAILURE,
     subject = ''[Free Visual] Ada'', errorMessage = Some ''Forbidden'', providerId = JNull,
     metadata = Some [(''name'', JStr ''Error''), (''status'', JNum 403),
                      (''code'', JNull), (''details'', JNull)]\<rparr>"
  have m: "?a \<in> set (attempts (fst (sendEnquiryEmails plain_builders scenario_env
              provider_rejects_b scenario_enquiry None 0)))"
    by (simp add: scenario_B)
  show ?thesis
    using m sendEnquiryEmails_attempt_invariant [OF m] by simp
qed

text \<open>
  C10. The Mailgun mailer is built only when the from-address variable is present, and
  \<^verbatim>\<open>fromAddress\<close> is read from the mailer: whenever the mailer is not null,
  \<^verbatim>\<open>fromAddress\<close> is not null (and not empty). Hence \<^verbatim>\<open>misconfigurationError\<close> is
  "Mailgun client is not configured." when the mailer is null and null otherwise, never
  "Missing Mailgun sender address."; the misconfiguration branch of
  \<^verbatim>\<open>sendToRecipient\<close> is taken exactly when the mailer is null, so the fallback
  "Mailer configuration is incomplete." is never used; and every attempt of a dispatch
  that carries the metadata of the misconfiguration branch has the error message
  "Mailgun client is not configured.".
\<close>

theorem mailgun_dead_misconfiguration_branches:
  "(\<forall>m. getMailer env = Some m \<longrightarrow> truthy (map_option fromEmail (getMailer env)))
   \<and> misconfigurationError (getMailer env) (map_option fromEmail (getMailer env))
       = (if getMailer env = None then Some ''Mailgun client is not configured.'' else None)
   \<and> ((truthy (misconfigurationError (getMailer env) (map_option fromEmail (getMailer env)))
        \<or> getMailer env = None \<or> \<not> truthy (map_option fromEmail (getMailer env)))
       = (getMailer env = None))
   \<and> (\<forall>a \<in> set (attempts (fst (sendEnquiryEmails bb env create enquiry attachment w0))).
         metadata a = Some [(''reason'', JStr ''missing_mailer_configuration'')] \<longrightarrow>
         getMailer env = None \<and> errorMessage a = Some ''Mailgun client is not configured.'')"
proof -
  have t: "truthy (map_option fromEmail (getMailer env))" if "getMailer env = Some m" for m
    using getMailer_Some [OF that] that by (simp add: truthy_def)
  have mis: "misconfigurationError (getMailer env) (map_option fromEmail (getMailer env))
       = (if getMailer env = None then Some ''Mailgun client is not configured.'' else None)"
    using t by (cases "getMailer env") (simp_all add: misconfigurationError_def)
  have cond: "(truthy (misconfigurationError (getMailer env) (map_option fromEmail (getMailer env)))
        \<or> getMailer env = None \<or> \<not> truthy (map_option fromEmail (getMailer env)))
       = (getMailer env = None)"
    unfolding mis using t by (cases "getMailer env") (simp_all add: truthy_def)
  have atts: "getMailer env = None \<and> errorMessage a = Some ''Mailgun client is not configured.''"
    if a: "a \<in> set (attempts (fst (sendEnquiryEmails bb env create enquiry attachment w0)))"
      and md: "metadata a = Some [(''reason'', JStr ''missing_mailer_configuration'')]" for a
  proof (cases "intendedRecipients bb env enquiry = []")
    case True
    with a md show ?thesis by (simp add: sendEnquiryEmails_empty)
  next
    case ne: False
    show ?thesis
    proof (cases "getMailer env")
      case None
      with a ne show ?thesis
        by (auto simp: sendEnquiryEmails_unconfigured misconfiguration_attempt_def)
    next
      case (Some m)
      from sendEnquiryEmails_configured_trace [OF ne Some, of attachment create w0]
      obtain cs :: "(MailgunMessageData \<times> send_result) list"
        where "length cs = length (intendedRecipients bb env enquiry)"
        and cs: "attempts (fst (sendEnquiryEmails bb env create enquiry attachment w0)) =
          map2 (attempt_for (buildSubject enquiry)) (intendedRecipients bb env enquiry)
            (map snd cs)"
        by blast
      from a obtain r res where "a = attempt_for (buildSubject enquiry) r res"
        unfolding cs by (auto simp: set_zip)
      with md have False
        by (cases res)
          (auto simp: attempt_for_def buildSuccessMetadata_def buildErrorMetadata_def
             split: if_splits)
      then show ?thesis ..
    qed
  qed
  show ?thesis
    using t mis cond atts by blast
qed

text \<open>
  The configured environment of scenario B has a mailer and no misconfiguration error;
  the environment of scenario D has none, and its attempts carry the one message.
\<close>

theorem mailgun_dead_misconfiguration_branches_witness:
  "getMailer scenario_env \<noteq> None
   \<and> truthy (map_option fromEmail (getMailer scenario_env))
   \<and> misconfigurationError (getMailer scenario_env)
        (map_option fromEmail (getMailer scenario_env)) = None
   \<and> getMailer scenario_D_env = None
   \<and> misconfigurationError (getMailer scenario_D_env)
        (map_option fromEmail (getMailer scenario_D_env))
       = Some ''Mailgun client is not configured.''
   \<and> list_all (\<lambda>a. metadata a = Some [(''reason'', JStr ''missing_mailer_configuration'')]
                  \<and> errorMessage a = Some ''Mailgun client is not configured.'')
        (attempts (fst (sendEnquiryEmails plain_builders scenario_D_env provider_rejects_b
                          scenario_C_enquiry None 0)))"
  using mailgun_dead_misconfiguration_branches
          [of scenario_env plain_builders provider_rejects_b scenario_enquiry None 0]
        mailgun_dead_misconfiguration_branches
          [of scenario_D_env plain_builders provider_rejects_b scenario_C_enquiry None 0]
  by (simp add: scenario_mailer scenario_D_mailer scenario_D)

section \<open>Expected failures, in the two versions of the service\<close>

lemma bit_length_bound: "a < 2 ^ n \<Longrightarrow> bit_length a \<le> n"
proof (induction a arbitrary: n rule: bit_length.induct)
  case (1 a)
  show ?case
  proof (cases "a = 0")
    case True
    then show ?thesis by (simp add: bit_length.simps)
  next
    case False
    with "1.prems" obtain k where n: "n = Suc k" by (cases n) auto
    with "1.prems" have "a div 2 < 2 ^ k" by auto
    from "1.IH" [OF False this] False n show ?thesis
      by (simp add: bit_length.simps [of a])
  qed
qed

lemma bit_length_less: "bit_length a \<le> n \<Longrightarrow> a < 2 ^ n"
proof (induction a arbitrary: n rule: bit_length.induct)
  case (1 a)
  show ?case
  proof (cases "a = 0")
    case True
    then show ?thesis by simp
  next
    case False
    with "1.prems" obtain k where n: "n = Suc k" and k: "bit_length (a div 2) \<le> k"
      by (cases n) (auto simp: bit_length.simps [of a])
    from "1.IH" [OF False k] have "a div 2 < 2 ^ k" .
    then show ?thesis using n by auto
  qed
qed

text \<open>Integers below \<open>2 ^ 53\<close> are exact, and a finite result is below \<open>2 ^ 1024\<close>.\<close>

lemma to_double_exact: "a < 2 ^ 53 \<Longrightarrow> to_double a = Some a"
  using bit_length_bound [of a 53] by (simp add: to_double_def Let_def)

lemma to_double_finite: "to_double a = Some v \<Longrightarrow> v < 2 ^ 1024"
proof -
  assume r: "to_double a = Some v"
  show ?thesis
  proof (cases "bit_length a \<le> 53")
    case True
    with r have "v = a" by (simp add: to_double_def Let_def)
    moreover from True have "a < 2 ^ 53" by (rule bit_length_less)
    moreover have "(2::nat) ^ 53 < 2 ^ 1024" by simp
    ultimately show ?thesis by simp
  next
    case False
    with r show ?thesis
      by (simp add: to_double_def Let_def split: if_splits)
  qed
qed

lemma to_double_examples:
  "to_double 9007199254740993 = Some 9007199254740992"
  "to_double 9007199254740995 = Some 9007199254740996"
  by (simp_all add: to_double_def bit_length.simps Let_def)

lemma parseInt10_examples:
  "parseInt10 '' +587x'' = Finite 587"
  "parseInt10 ''-0'' = Finite 0"
  "parseInt10 ''x1'' = NaN"
  "parseInt10 ''9007199254740993'' = Finite 9007199254740992"
  "parseInt10 ''-9007199254740995'' = Finite (- 9007199254740996)"
  by (simp_all add: parseInt10_def js_trimStart_def is_js_whitespace_def is_digit_def
      to_double_examples to_double_exact Let_def)

lemma nodemailer_guard:
  assumes "getMailer_nodemailer env = None \<or> \<not> truthy (env ''ENQUIRY_NOTIFICATION_FROM'')
           \<or> (getStaffRecipients env = [] \<and> customerRecipient enquiry = None)"
  shows "sendEnquiryEmails_nodemailer bb env send enquiry attachment v0 =
           (Inl (JError ''Failed to send enquiry notification email'' []), [], v0)"
  using assms
  by (auto simp: sendEnquiryEmails_nodemailer_def Let_def truthy_def split: option.splits)

lemma first_settled_rejection_None:
  "(first_settled_rejection log = None) =
     (\<not> list_ex (\<lambda>c. \<exists>e. fst (snd c) = Rejected e) log)"
  by (induction log rule: first_settled_rejection.induct) (auto split: option.splits)

lemma first_settled_rejection_Some:
  "first_settled_rejection log = Some (e, i) \<Longrightarrow>
     (\<exists>m. (m, Rejected e, i) \<in> set log)
     \<and> (\<forall>m' e' i'. (m', Rejected e', i') \<in> set log \<longrightarrow> i \<le> i')"
proof (induction log arbitrary: e i rule: first_settled_rejection.induct)
  case 1
  then show ?case by simp
next
  case (2 m v j rs)
  then show ?case by fastforce
next
  case (3 m x j rs)
  show ?case
  proof (cases "first_settled_rejection rs")
    case None
    then have "\<not> list_ex (\<lambda>c. \<exists>e. fst (snd c) = Rejected e) rs"
      by (simp add: first_settled_rejection_None)
    then have none: "\<And>m' e' i'. (m', Rejected e', i') \<notin> set rs"
      by (fastforce simp: list_ex_iff)
    from None "3.prems" have "e = x" "i = j" by simp_all
    with none show ?thesis by auto
  next
    case (Some p)
    obtain e0 i0 where p: "p = (e0, i0)" by (cases p)
    from "3.IH" [of e0 i0] Some p
    have ih: "(\<exists>m. (m, Rejected e0, i0) \<in> set rs)"
       "\<And>m' e' i'. (m', Rejected e', i') \<in> set rs \<Longrightarrow> i0 \<le> i'"
      by auto
    show ?thesis
    proof (cases "i0 < j")
      case True
      with Some p "3.prems" have "e = e0" "i = i0" by simp_all
      with ih True show ?thesis by (auto intro: less_imp_le)
    next
      case False
      with Some p "3.prems" have "e = x" "i = j" by simp_all
      with ih False show ?thesis by (auto intro: order_trans [of j i0])
    qed
  qed
qed

lemma issue_sends_messages:
  "map fst (fst (issue_sends send t ms w)) = ms"
proof (induction ms arbitrary: w)
  case Nil
  show ?case by simp
next
  case (Cons m ms)
  obtain r i w1 where s: "send t m w = ((r, i), w1)"
    by (metis surj_pair)
  obtain rs w2 where r: "issue_sends send t ms w1 = (rs, w2)"
    by (metis surj_pair)
  from Cons.IH [of w1] r have "map fst rs = ms" by simp
  then show ?case by (simp add: s r)
qed

lemma customerRecipient_nonempty: "customerRecipient enquiry = Some c \<Longrightarrow> c \<noteq> []"
  by (auto simp: customerRecipient_def Let_def split: if_splits)

lemma nodemailer_rejected:
  assumes "first_settled_rejection
             (fst (snd (sendEnquiryEmails_nodemailer bb env send enquiry attachment v0)))
           = Some (e, i)"
  shows "fst (sendEnquiryEmails_nodemailer bb env send enquiry attachment v0) = Inl e"
  using assms
  by (auto simp: sendEnquiryEmails_nodemailer_def Let_def
      split: option.splits if_splits prod.splits)

lemma nodemailer_returns:
  assumes "\<not> (getMailer_nodemailer env = None \<or> \<not> truthy (env ''ENQUIRY_NOTIFICATION_FROM'')
           \<or> (getStaffRecipients env = [] \<and> customerRecipient enquiry = None))"
    and "first_settled_rejection
             (fst (snd (sendEnquiryEmails_nodemailer bb env send enquiry attachment v0)))
           = None"
  shows "fst (sendEnquiryEmails_nodemailer bb env send enquiry attachment v0) = Inr ()"
  using assms customerRecipient_nonempty [of enquiry]
  by (auto simp: sendEnquiryEmails_nodemailer_def Let_def truthy_def
      split: option.splits if_splits prod.splits)

lemma nodemailer_sends:
  assumes "\<not> (getMailer_nodemailer env = None \<or> \<not> truthy (env ''ENQUIRY_NOTIFICATION_FROM'')
           \<or> (getStaffRecipients env = [] \<and> customerRecipient enquiry = None))"
  shows "map (\<lambda>c. nm_to (fst c))
           (fst (snd (sendEnquiryEmails_nodemailer bb env send enquiry attachment v0)))
         = (if getStaffRecipients env = [] then [] else [ToList (getStaffRecipients env)])
           @ (case customerRecipient enquiry of None \<Rightarrow> [] | Some c \<Rightarrow> [ToAddress c])"
proof -
  from assms obtain t sender where t: "getMailer_nodemailer env = Some t"
    and f: "env ''ENQUIRY_NOTIFICATION_FROM'' = Some sender" and ne: "sender \<noteq> []"
    by (auto simp: truthy_def split: option.splits)
  note c = customerRecipient_nonempty [of enquiry]
  have m: "map (\<lambda>c. nm_to (fst c)) (fst (issue_sends send t ms w)) = map nm_to ms" for ms w
    using arg_cong [OF issue_sends_messages [of send t ms w], of "map nm_to"]
    by (simp add: comp_def)
  show ?thesis
    using assms t f ne c
    by (auto simp: sendEnquiryEmails_nodemailer_def Let_def truthy_def m
        split: option.splits prod.splits)
qed

lemma scenario_D_nodemailer:
  "sendEnquiryEmails_nodemailer plain_builders scenario_D_env smtp_accepts scenario_C_enquiry None 0
    = (Inl (JError ''Failed to send enquiry notification email'' []), [], 0)"
  by (rule nodemailer_guard) (simp add: getMailer_nodemailer_def scenario_D_env_def)

lemma scenario_smtp_mailer:
  "getMailer_nodemailer scenario_smtp_env =
     Some \<lparr>host = ''smtp.x.com'', port = Finite 587, secure = False, auth = None\<rparr>"
proof -
  have "parseInt10 ''587'' = Finite 587"
    by (simp add: parseInt10_def js_trimStart_def is_js_whitespace_def is_digit_def
        to_double_exact Let_def)
  then show ?thesis
    by (simp add: getMailer_nodemailer_def scenario_smtp_env_def number_truthy_def)
qed

lemma scenario_smtp_staff: "getStaffRecipients scenario_smtp_env = [''a@x.com'', ''b@x.com'']"
  by (simp add: getStaffRecipients_def scenario_smtp_env_def js_trim_def is_js_whitespace_def)

lemma scenario_smtp_from:
  "scenario_smtp_env ''ENQUIRY_NOTIFICATION_FROM'' = Some ''noreply@x.com''"
  by (simp add: scenario_smtp_env_def)

lemma scenario_smtp:
  "fst (sendEnquiryEmails_nodemailer plain_builders scenario_smtp_env smtp_rejects_both
          scenario_enquiry None 0) = Inl (JError ''customer bounced'' [])
   \<and> map (\<lambda>c. (nm_to (fst c), snd c))
       (fst (snd (sendEnquiryEmails_nodemailer plain_builders scenario_smtp_env smtp_rejects_both
          scenario_enquiry None 0)))
     = [(ToList [''a@x.com'', ''b@x.com''], Rejected (JError ''staff mailbox full'' []), 9),
        (ToAddress ''c@y.com'', Rejected (JError ''customer bounced'' []), 2)]"
  by (simp add: sendEnquiryEmails_nodemailer_def scenario_smtp_mailer scenario_smtp_staff
      scenario_customer scenario_smtp_from Let_def truthy_def smtp_rejects_both_def)

text \<open>
  C3, as the code has it. In the expected failure modes the Mailgun version of
  \<^verbatim>\<open>sendEnquiryEmails\<close> returns an outcome and does not throw: with no resolved
  recipient the single synthetic attempt is a FAILURE; with the transport not configured
  every intended recipient has a FAILURE attempt; a recipient whose send the provider
  rejects has a FAILURE attempt; and whenever an attempt is a FAILURE, in particular in
  each of these modes, the notification state is not SENT. The earlier nodemailer version
  does throw in each of these modes. It throws
  \<^verbatim>\<open>Error("Failed to send enquiry notification email")\<close>, without a send, when the
  transporter or the from address is missing or no recipient is resolved. Otherwise it
  issues one send to the staff addresses, if there are any, and one to the customer, if
  there is one; when a send is rejected it throws the error of a rejected send, the one
  that settles first; and it returns only when no send is rejected.
\<close>

theorem sendEnquiryEmails_expected_failures:
  assumes "sendEnquiryEmails bb env create enquiry attachment w0 = (out, calls, w)"
  shows "(intendedRecipients bb env enquiry = [] \<longrightarrow>
            map (\<lambda>a. (recipient a, status a)) (attempts out) = [(''n/a'', FAILURE)])
     \<and> (intendedRecipients bb env enquiry \<noteq> [] \<and> getMailer env = None \<longrightarrow>
            map (\<lambda>a. (recipient a, status a)) (attempts out)
              = map (\<lambda>r. (rcpt_email r, FAILURE)) (intendedRecipients bb env enquiry))
     \<and> (\<forall>i < length calls. \<forall>e. snd (calls ! i) = Rejected e \<longrightarrow>
            msg_to (fst (calls ! i)) = rcpt_email (intendedRecipients bb env enquiry ! i)
            \<and> recipient (attempts out ! i) = rcpt_email (intendedRecipients bb env enquiry ! i)
            \<and> status (attempts out ! i) = FAILURE)
     \<and> (list_ex (\<lambda>a. status a = FAILURE) (attempts out) \<longrightarrow> notificationState out \<noteq> SENT)
     \<and> (intendedRecipients bb env enquiry = [] \<or> getMailer env = None
          \<or> list_ex (\<lambda>c. \<exists>e. snd c = Rejected e) calls
         \<longrightarrow> list_ex (\<lambda>a. status a = FAILURE) (attempts out) \<and> notificationState out \<noteq> SENT)
     \<and> (getMailer_nodemailer env = None \<or> \<not> truthy (env ''ENQUIRY_NOTIFICATION_FROM'')
          \<or> (getStaffRecipients env = [] \<and> customerRecipient enquiry = None)
         \<longrightarrow> sendEnquiryEmails_nodemailer bb env send enquiry attachment v0
               = (Inl (JError ''Failed to send enquiry notification email'' []), [], v0))
     \<and> (list_ex (\<lambda>c. \<exists>e. fst (snd c) = Rejected e)
            (fst (snd (sendEnquiryEmails_nodemailer bb env send enquiry attachment v0)))
         \<longrightarrow> (\<exists>m e i.
                fst (sendEnquiryEmails_nodemailer bb env send enquiry attachment v0) = Inl e
                \<and> (m, Rejected e, i)
                    \<in> set (fst (snd (sendEnquiryEmails_nodemailer bb env send enquiry
                                       attachment v0)))
                \<and> (\<forall>m' e' i'.
                      (m', Rejected e', i')
                        \<in> set (fst (snd (sendEnquiryEmails_nodemailer bb env send enquiry
                                           attachment v0)))
                      \<longrightarrow> i \<le> i')))
     \<and> (\<not> (getMailer_nodemailer env = None \<or> \<not> truthy (env ''ENQUIRY_NOTIFICATION_FROM'')
             \<or> (getStaffRecipients env = [] \<and> customerRecipient enquiry = None))
         \<longrightarrow> map (\<lambda>c. nm_to (fst c))
               (fst (snd (sendEnquiryEmails_nodemailer bb env send enquiry attachment v0)))
             = (if getStaffRecipients env = [] then [] else [ToList (getStaffRecipients env)])
               @ (case customerRecipient enquiry of None \<Rightarrow> [] | Some c \<Rightarrow> [ToAddress c])
           \<and> (\<not> list_ex (\<lambda>c. \<exists>e. fst (snd c) = Rejected e)
                  (fst (snd (sendEnquiryEmails_nodemailer bb env send enquiry attachment v0)))
               \<longrightarrow> fst (sendEnquiryEmails_nodemailer bb env send enquiry attachment v0)
                     = Inr ()))"
proof -
  let ?rs = "intendedRecipients bb env enquiry"
  have out: "out = fst (sendEnquiryEmails bb env create enquiry attachment w0)"
    and calls: "calls = fst (snd (sendEnquiryEmails bb env create enquiry attachment w0))"
    using assms by simp_all
  have A: "map (\<lambda>a. (recipient a, status a)) (attempts out) = [(''n/a'', FAILURE)]" if "?rs = []"
    unfolding out using sendEnquiryEmails_empty [OF that, of create attachment w0] by simp
  have B: "map (\<lambda>a. (recipient a, status a)) (attempts out)
              = map (\<lambda>r. (rcpt_email r, FAILURE)) ?rs" if "?rs \<noteq> []" "getMailer env = None"
    unfolding out using sendEnquiryEmails_unconfigured [OF that, of create attachment w0]
    by (simp add: misconfiguration_attempt_def comp_def)
  have C: "msg_to (fst (calls ! i)) = rcpt_email (?rs ! i)
            \<and> recipient (attempts out ! i) = rcpt_email (?rs ! i)
            \<and> status (attempts out ! i) = FAILURE
            \<and> i < length (attempts out)"
    if "i < length calls" "snd (calls ! i) = Rejected e" for i e
  proof -
    have i: "i < length (fst (snd (sendEnquiryEmails bb env create enquiry attachment w0)))"
      using that(1) calls by simp
    note rel = sendEnquiryEmails_call_attempt [OF i, folded out calls]
    with that show ?thesis
      by (simp add: attempt_for_recipient attempt_for_status)
  qed
  have D: "notificationState out \<noteq> SENT" if "list_ex (\<lambda>a. status a = FAILURE) (attempts out)"
  proof -
    from that obtain a where "a \<in> set (attempts out)" "status a = FAILURE"
      by (auto simp: list_ex_iff)
    then have "notificationState (summarizeAttempts (attempts out)) \<noteq> SENT"
      by (rule summarize_not_SENT)
    then show ?thesis
      unfolding out using sendEnquiryEmails_summary(1) [of bb env create enquiry attachment w0]
      by simp
  qed
  have E: "list_ex (\<lambda>a. status a = FAILURE) (attempts out)"
    if "?rs = [] \<or> getMailer env = None \<or> list_ex (\<lambda>c. \<exists>e. snd c = Rejected e) calls"
  proof (cases "?rs = []")
    case True
    from A [OF True] show ?thesis
      by (cases "attempts out") (auto simp: list_ex_iff)
  next
    case ne: False
    show ?thesis
    proof (cases "getMailer env = None")
      case True
      from B [OF ne True] ne show ?thesis
        by (cases "attempts out"; cases ?rs) (auto simp: list_ex_iff)
    next
      case False
      with ne that obtain c e where "c \<in> set calls" "snd c = Rejected e"
        by (auto simp: list_ex_iff)
      then obtain i where "i < length calls" "snd (calls ! i) = Rejected e"
        by (auto simp: in_set_conv_nth)
      from C [OF this] show ?thesis
        by (auto simp: list_ex_iff)
    qed
  qed
  have F: "sendEnquiryEmails_nodemailer bb env send enquiry attachment v0
               = (Inl (JError ''Failed to send enquiry notification email'' []), [], v0)"
    if "getMailer_nodemailer env = None \<or> \<not> truthy (env ''ENQUIRY_NOTIFICATION_FROM'')
          \<or> (getStaffRecipients env = [] \<and> customerRecipient enquiry = None)"
    using that by (rule nodemailer_guard)
  let ?N = "sendEnquiryEmails_nodemailer bb env send enquiry attachment v0"
  have G: "\<exists>m e i. fst ?N = Inl e \<and> (m, Rejected e, i) \<in> set (fst (snd ?N))
            \<and> (\<forall>m' e' i'. (m', Rejected e', i') \<in> set (fst (snd ?N)) \<longrightarrow> i \<le> i')"
    if "list_ex (\<lambda>c. \<exists>e. fst (snd c) = Rejected e) (fst (snd ?N))"
  proof -
    from that obtain p where "first_settled_rejection (fst (snd ?N)) = Some p"
      using first_settled_rejection_None [of "fst (snd ?N)"] by auto
    then obtain e i where ei: "first_settled_rejection (fst (snd ?N)) = Some (e, i)"
      by (cases p) simp
    from nodemailer_rejected [OF ei] first_settled_rejection_Some [OF ei]
    show ?thesis by blast
  qed
  have H: "map (\<lambda>c. nm_to (fst c)) (fst (snd ?N))
             = (if getStaffRecipients env = [] then [] else [ToList (getStaffRecipients env)])
               @ (case customerRecipient enquiry of None \<Rightarrow> [] | Some c \<Rightarrow> [ToAddress c])
           \<and> (\<not> list_ex (\<lambda>c. \<exists>e. fst (snd c) = Rejected e) (fst (snd ?N))
               \<longrightarrow> fst ?N = Inr ())"
    if g: "\<not> (getMailer_nodemailer env = None \<or> \<not> truthy (env ''ENQUIRY_NOTIFICATION_FROM'')
             \<or> (getStaffRecipients env = [] \<and> customerRecipient enquiry = None))"
  proof -
    have "fst ?N = Inr ()"
      if "\<not> list_ex (\<lambda>c. \<exists>e. fst (snd c) = Rejected e) (fst (snd ?N))"
      using nodemailer_returns [OF g] that
      by (simp add: first_settled_rejection_None)
    with nodemailer_sends [OF g, of bb send attachment v0] show ?thesis by blast
  qed
  have A': "?rs = [] \<longrightarrow>
            map (\<lambda>a. (recipient a, status a)) (attempts out) = [(''n/a'', FAILURE)]"
    using A by blast
  have B': "?rs \<noteq> [] \<and> getMailer env = None \<longrightarrow>
            map (\<lambda>a. (recipient a, status a)) (attempts out)
              = map (\<lambda>r. (rcpt_email r, FAILURE)) ?rs"
    using B by blast
  have C': "\<forall>i < length calls. \<forall>e. snd (calls ! i) = Rejected e \<longrightarrow>
            msg_to (fst (calls ! i)) = rcpt_email (?rs ! i)
            \<and> recipient (attempts out ! i) = rcpt_email (?rs ! i)
            \<and> status (attempts out ! i) = FAILURE"
    using C by blast
  have D': "list_ex (\<lambda>a. status a = FAILURE) (attempts out) \<longrightarrow> notificationState out \<noteq> SENT"
    using D by blast
  have E': "?rs = [] \<or> getMailer env = None
          \<or> list_ex (\<lambda>c. \<exists>e. snd c = Rejected e) calls
         \<longrightarrow> list_ex (\<lambda>a. status a = FAILURE) (attempts out) \<and> notificationState out \<noteq> SENT"
    using D E by blast
  have F': "getMailer_nodemailer env = None \<or> \<not> truthy (env ''ENQUIRY_NOTIFICATION_FROM'')
          \<or> (getStaffRecipients env = [] \<and> customerRecipient enquiry = None)
         \<longrightarrow> sendEnquiryEmails_nodemailer bb env send enquiry attachment v0
               = (Inl (JError ''Failed to send enquiry notification email'' []), [], v0)"
    using F by blast
  have G': "list_ex (\<lambda>c. \<exists>e. fst (snd c) = Rejected e) (fst (snd ?N))
         \<longrightarrow> (\<exists>m e i. fst ?N = Inl e \<and> (m, Rejected e, i) \<in> set (fst (snd ?N))
                \<and> (\<forall>m' e' i'. (m', Rejected e', i') \<in> set (fst (snd ?N)) \<longrightarrow> i \<le> i'))"
    using G by blast
  have H': "\<not> (getMailer_nodemailer env = None \<or> \<not> truthy (env ''ENQUIRY_NOTIFICATION_FROM'')
             \<or> (getStaffRecipients env = [] \<and> customerRecipient enquiry = None))
         \<longrightarrow> map (\<lambda>c. nm_to (fst c)) (fst (snd ?N))
             = (if getStaffRecipients env = [] then [] else [ToList (getStaffRecipients env)])
               @ (case customerRecipient enquiry of None \<Rightarrow> [] | Some c \<Rightarrow> [ToAddress c])
           \<and> (\<not> list_ex (\<lambda>c. \<exists>e. fst (snd c) = Rejected e) (fst (snd ?N))
               \<longrightarrow> fst ?N = Inr ())"
    using H by blast
  show ?thesis
    by (intro conjI A' B' C' D' E' F' G' H')
qed

text \<open>
  Scenario B in the Mailgun version: the send to \<^verbatim>\<open>b@x.com\<close> is rejected, its attempt
  is a FAILURE and the state is not SENT. The nodemailer version throws the fixed error in
  that environment, which has no SMTP host. With the SMTP variables set and both sends
  rejected, the staff send at instant 9 and the customer send at instant 2, it throws the
  customer send's error, although that send was issued second.
\<close>

theorem sendEnquiryEmails_expected_failures_witness:
  "sendEnquiryEmails plain_builders scenario_env provider_rejects_b scenario_enquiry None 0
     = (fst (sendEnquiryEmails plain_builders scenario_env provider_rejects_b scenario_enquiry None 0),
        fst (snd (sendEnquiryEmails plain_builders scenario_env provider_rejects_b scenario_enquiry None 0)),
        3)
   \<and> snd (fst (snd (sendEnquiryEmails plain_builders scenario_env provider_rejects_b
                        scenario_enquiry None 0)) ! 1)
       = Rejected (JError ''Forbidden'' [(''status'', JNum 403)])
   \<and> recipient (attempts (fst (sendEnquiryEmails plain_builders scenario_env provider_rejects_b
                        scenario_enquiry None 0)) ! 1) = ''b@x.com''
   \<and> status (attempts (fst (sendEnquiryEmails plain_builders scenario_env provider_rejects_b
                        scenario_enquiry None 0)) ! 1) = FAILURE
   \<and> notificationState (fst (sendEnquiryEmails plain_builders scenario_env provider_rejects_b
                        scenario_enquiry None 0)) \<noteq> SENT
   \<and> getMailer_nodemailer scenario_env = None
   \<and> sendEnquiryEmails_nodemailer plain_builders scenario_env smtp_rejects_both
        scenario_enquiry None 0
       = (Inl (JError ''Failed to send enquiry notification email'' []), [], 0)
   \<and> map (\<lambda>c. (nm_to (fst c), snd c))
        (fst (snd (sendEnquiryEmails_nodemailer plain_builders scenario_smtp_env
                     smtp_rejects_both scenario_enquiry None 0)))
       = [(ToList [''a@x.com'', ''b@x.com''], Rejected (JError ''staff mailbox full'' []), 9),
          (ToAddress ''c@y.com'', Rejected (JError ''customer bounced'' []), 2)]
   \<and> fst (sendEnquiryEmails_nodemailer plain_builders scenario_smtp_env smtp_rejects_both
             scenario_enquiry None 0) = Inl (JError ''customer bounced'' [])"
proof -
  let ?r = "sendEnquiryEmails plain_builders scenario_env provider_rejects_b scenario_enquiry None 0"
  have full: "?r = (fst ?r, fst (snd ?r), 3)"
    by (simp add: scenario_B)
  have i1: "1 < length (fst (snd ?r))"
    by (simp add: scenario_B)
  have c1: "snd (fst (snd ?r) ! 1) = Rejected (JError ''Forbidden'' [(''status'', JNum 403)])"
    by (simp add: scenario_B)
  have ex: "list_ex (\<lambda>c. \<exists>e. snd c = Rejected e) (fst (snd ?r))"
    by (simp add: scenario_B)
  have rb: "rcpt_email (intendedRecipients plain_builders scenario_env scenario_enquiry ! 1) = ''b@x.com''"
    by (simp add: scenario_recipients)
  have nm: "getMailer_nodemailer scenario_env = None"
    by (simp add: getMailer_nodemailer_def scenario_env_def)
  show ?thesis
    using full i1 c1 ex rb nm scenario_smtp
      sendEnquiryEmails_expected_failures [OF full, of smtp_rejects_both 0]
    by simp
qed

text \<open>
  C3 as stated fails on the nodemailer version: in scenario D (transport not configured,
  one staff address) the call throws.
\<close>

theorem sendEnquiryEmails_nodemailer_throws:
  "fst (sendEnquiryEmails_nodemailer plain_builders scenario_D_env smtp_accepts
          scenario_C_enquiry None 0)
     = Inl (JError ''Failed to send enquiry notification email'' [])"
  by (simp add: scenario_D_nodemailer)

end
